theory Spec2Isabelle
  imports Complex_Main
begin

section \<open>Python values used by \<open>best_price_entry_annealing.py\<close>\<close>

text \<open>
  Close prices are Python floats. The script only negates them, compares them and
  copies them; on finite floats those operations are exact, so a price is modelled
  as a \<^typ>\<open>real\<close>. Sums of prices occur only inside the external solver, where
  energies are taken over the reals.

  Every exception the script can raise is a value of \<open>failure\<close>; a function that can
  raise returns \<open>failure + 'a\<close>, with \<open>Inl\<close> for the exception.
\<close>

datatype failure =
    ValueError_min_empty          \<comment> \<open>\<open>min([])\<close>: "min() arg is an empty sequence"\<close>
  | ValueError_int_literal        \<comment> \<open>\<open>int(s)\<close>: "invalid literal for int() with base 10"\<close>
  | IndexError_list               \<comment> \<open>\<open>xs[1]\<close>: "list index out of range"\<close>
  | IndexError_iloc               \<comment> \<open>\<open>.iloc[i]\<close>: "single positional indexer is out-of-bounds"\<close>
  | ValueError_self_interaction   \<comment> \<open>\<open>add_interaction(v, v, _)\<close>\<close>
  | ValueError_column_length      \<comment> \<open>\<open>DataFrame(data)\<close> with columns of different lengths\<close>
  | SolverError                   \<comment> \<open>any failure of the external solving service\<close>
  | NoOptimalBuyPriceFound        \<comment> \<open>the condition that section 7 of the specification
                                      names; no statement of the script raises it\<close>

fun bind_result :: "failure + 'a \<Rightarrow> ('a \<Rightarrow> failure + 'b) \<Rightarrow> failure + 'b" where
  "bind_result (Inl e) f = Inl e"
| "bind_result (Inr x) f = f x"

subsection \<open>Formatting and parsing integers\<close>

text \<open>\<open>f'{i}'\<close> for a non-negative integer: its decimal digits, most significant first.\<close>

definition digit_char :: "nat \<Rightarrow> char" where
  "digit_char d = ''0123456789'' ! d"

fun str_nat :: "nat \<Rightarrow> string" where
  "str_nat n = (if n < 10 then [digit_char n] else str_nat (n div 10) @ [digit_char (n mod 10)])"

declare str_nat.simps [simp del]

definition is_digit :: "char \<Rightarrow> bool" where
  "is_digit c = (c \<in> set ''0123456789'')"

text \<open>The value of a digit: its position among the digits.\<close>

definition digit_val :: "char \<Rightarrow> nat" where
  "digit_val c = length (takeWhile (\<lambda>d. d \<noteq> c) ''0123456789'')"

text \<open>
  Whitespace that \<open>int\<close> strips from both ends of its argument: the ASCII
  characters 9 to 13, 28 to 31 and the blank.
\<close>

definition is_space :: "char \<Rightarrow> bool" where
  "is_space c = (c \<in> set [CHR 0x09, CHR 0x0A, CHR 0x0B, CHR 0x0C, CHR 0x0D,
                            CHR 0x1C, CHR 0x1D, CHR 0x1E, CHR 0x1F, CHR '' ''])"

definition strip :: "string \<Rightarrow> string" where
  "strip s = rev (dropWhile is_space (rev (dropWhile is_space s)))"

definition digits_value :: "string \<Rightarrow> nat" where
  "digits_value ds = foldl (\<lambda>acc c. 10 * acc + digit_val c) 0 ds"

text \<open>
  \<open>int(s)\<close> on a string: surrounding whitespace is dropped, one sign is allowed, and
  the rest must be a non-empty run of decimal digits. (Python also accepts single
  underscores between digits; the only caller passes a field of \<open>split('_')\<close>, which
  contains no underscore.)
\<close>

definition py_int :: "string \<Rightarrow> failure + int" where
  "py_int s =
     (let t = strip s;
          negative = (t \<noteq> [] \<and> hd t = CHR ''-'');
          ds = (if t \<noteq> [] \<and> (hd t = CHR ''-'' \<or> hd t = CHR ''+'') then tl t else t)
      in if ds \<noteq> [] \<and> list_all is_digit ds
         then Inr (if negative then - int (digits_value ds) else int (digits_value ds))
         else Inl ValueError_int_literal)"

subsection \<open>String operations\<close>

text \<open>\<open>s.split(c)\<close> for a one-character separator: the fields between the separators.\<close>

fun split_on :: "char \<Rightarrow> string \<Rightarrow> string list" where
  "split_on c [] = [[]]"
| "split_on c (x # xs) =
     (let fields = split_on c xs
      in if x = c then [] # fields else (x # hd fields) # tl fields)"

fun startswith :: "string \<Rightarrow> string \<Rightarrow> bool" where
  "startswith s [] = True"
| "startswith [] (p # ps) = False"
| "startswith (x # xs) (p # ps) = (x = p \<and> startswith xs ps)"

text \<open>\<open>needle in s\<close> on strings: \<open>needle\<close> occurs in \<open>s\<close> as a contiguous substring.\<close>

fun contains :: "string \<Rightarrow> string \<Rightarrow> bool" where
  "contains [] needle = (needle = [])"
| "contains (x # xs) needle = (startswith (x # xs) needle \<or> contains xs needle)"

text \<open>\<open>xs[i]\<close> on a Python list with a non-negative literal index.\<close>

definition list_item :: "'a list \<Rightarrow> nat \<Rightarrow> failure + 'a" where
  "list_item xs i = (if i < length xs then Inr (xs ! i) else Inl IndexError_list)"

text \<open>
  \<open>series.iloc[i]\<close>: a position from \<open>-n\<close> to \<open>n - 1\<close>, negative positions counting
  from the end; anything else raises.
\<close>

definition iloc :: "'a list \<Rightarrow> int \<Rightarrow> failure + 'a" where
  "iloc xs i =
     (if 0 \<le> i \<and> i < int (length xs) then Inr (xs ! nat i)
      else if i < 0 \<and> - int (length xs) \<le> i then Inr (xs ! nat (int (length xs) + i))
      else Inl IndexError_iloc)"

subsection \<open>Variable names\<close>

text \<open>The labels \<open>f'buy_{i}'\<close> and \<open>f'sell_{i}'\<close> of lines 46, 48 and 53.\<close>

definition buy_name :: "nat \<Rightarrow> string" where
  "buy_name i = ''buy_'' @ str_nat i"

definition sell_name :: "nat \<Rightarrow> string" where
  "sell_name i = ''sell_'' @ str_nat i"

section \<open>The price table\<close>

text \<open>
  The script's DataFrame has the columns \<open>Date\<close> and \<open>Close\<close> of the literal
  \<open>data\<close> (lines 11 to 16), and after lines 24 and 25 the two signal columns. A
  frame is stored row by row, so that all its columns have the same length, as they
  have in a DataFrame; \<open>df['Close']\<close> is \<open>map Close df\<close> and \<open>len(df)\<close> is
  \<open>length df\<close>.
\<close>

record bar =
  Date :: string
  Close :: real

record row = bar +
  Buy_Signal :: bool
  Sell_Signal :: bool

definition data_Date :: "string list" where
  "data_Date =
     [''2024.03.05 16:45'', ''2024.03.05 17:00'', ''2024.03.05 17:15'', ''2024.03.05 17:30'',
      ''2024.03.05 17:45'', ''2024.03.05 18:00'', ''2024.03.05 18:15'', ''2024.03.05 18:30'',
      ''2024.03.05 18:45'', ''2024.03.05 19:00'', ''2024.03.05 19:15'', ''2024.03.05 19:30'',
      ''2024.03.05 19:45'', ''2024.03.05 20:00'']"

definition data_Close :: "real list" where
  "data_Close =
     [894 / 100, 896 / 100, 855 / 100, 846 / 100, 849 / 100, 859 / 100, 853 / 100,
      853 / 100, 871 / 100, 852 / 100, 847 / 100, 852 / 100, 822 / 100, 856 / 100]"

text \<open>\<open>pd.DataFrame(data)\<close>: the two columns must have the same length.\<close>

definition DataFrame :: "string list \<Rightarrow> real list \<Rightarrow> failure + bar list" where
  "DataFrame dates closes =
     (if length dates = length closes
      then Inr (map (\<lambda>(d, c). \<lparr>Date = d, Close = c\<rparr>) (zip dates closes))
      else Inl ValueError_column_length)"

text \<open>
  Lines 24 and 25: \<open>Buy_Signal\<close> is \<open>True\<close> at the positions \<open>i\<close> with
  \<open>i % 2 != 0\<close>, \<open>Sell_Signal\<close> is \<open>False\<close> everywhere.
\<close>

definition default_signals :: "bar list \<Rightarrow> row list" where
  "default_signals bars =
     map (\<lambda>i. \<lparr>Date = Date (bars ! i), Close = Close (bars ! i),
               Buy_Signal = (i mod 2 \<noteq> 0), Sell_Signal = False\<rparr>)
         [0..<length bars]"

text \<open>The module-level \<open>df\<close> after line 25.\<close>

definition global_df :: "failure + row list" where
  "global_df = bind_result (DataFrame data_Date data_Close) (\<lambda>bars. Inr (default_signals bars))"

text \<open>
  The rows that \<open>pd.DataFrame(data)\<close> holds for the literal \<open>data\<close>.
\<close>

definition script_bars :: "bar list" where
  "script_bars = map (\<lambda>(d, c). \<lparr>Date = d, Close = c\<rparr>) (zip data_Date data_Close)"

section \<open>The binary quadratic model\<close>

text \<open>
  A \<open>dimod.BinaryQuadraticModel\<close>: the variables with their linear biases in the
  order they were added, the interactions between unordered pairs of variables, and
  the constant offset. The vartype is \<open>BINARY\<close> throughout (line 41): a variable
  takes the value 0 or 1.
\<close>

record bqm =
  linear :: "(string \<times> real) list"
  quadratic :: "((string \<times> string) \<times> real) list"
  offset :: real

definition empty_bqm :: bqm where
  "empty_bqm = \<lparr>linear = [], quadratic = [], offset = 0\<rparr>"

definition variables :: "bqm \<Rightarrow> string list" where
  "variables m = map fst (linear m)"

text \<open>
  \<open>add_variable(v, bias)\<close> adds a new variable with that bias, or adds the bias to
  the one the variable has.
\<close>

fun add_linear :: "string \<Rightarrow> real \<Rightarrow> (string \<times> real) list \<Rightarrow> (string \<times> real) list" where
  "add_linear v b [] = [(v, b)]"
| "add_linear v b ((u, c) # rest) =
     (if u = v then (u, c + b) # rest else (u, c) # add_linear v b rest)"

definition add_variable :: "bqm \<Rightarrow> string \<Rightarrow> real \<Rightarrow> bqm" where
  "add_variable m v b = m\<lparr>linear := add_linear v b (linear m)\<rparr>"

text \<open>
  \<open>add_interaction(u, v, bias)\<close> refuses \<open>u = v\<close>, adds a variable that is new
  with linear bias 0, and adds the bias to the interaction of the pair.
\<close>

definition ensure_variable :: "string \<Rightarrow> (string \<times> real) list \<Rightarrow> (string \<times> real) list" where
  "ensure_variable v l = (if v \<in> set (map fst l) then l else l @ [(v, 0)])"

fun add_quadratic ::
  "string \<Rightarrow> string \<Rightarrow> real \<Rightarrow> ((string \<times> string) \<times> real) list \<Rightarrow> ((string \<times> string) \<times> real) list"
where
  "add_quadratic u v w [] = [((u, v), w)]"
| "add_quadratic u v w (((a, b), c) # rest) =
     (if (a = u \<and> b = v) \<or> (a = v \<and> b = u) then ((a, b), c + w) # rest
      else ((a, b), c) # add_quadratic u v w rest)"

definition add_interaction :: "bqm \<Rightarrow> string \<Rightarrow> string \<Rightarrow> real \<Rightarrow> failure + bqm" where
  "add_interaction m u v w =
     (if u = v then Inl ValueError_self_interaction
      else Inr (m\<lparr>linear := ensure_variable v (ensure_variable u (linear m)),
                  quadratic := add_quadratic u v w (quadratic m)\<rparr>))"

section \<open>The model builder \<open>create_bqm\<close>\<close>

text \<open>A \<open>for\<close> loop whose body may raise: the first exception ends the loop.\<close>

fun for_each :: "('i \<Rightarrow> 's \<Rightarrow> failure + 's) \<Rightarrow> 'i list \<Rightarrow> 's \<Rightarrow> failure + 's" where
  "for_each body [] s = Inr s"
| "for_each body (x # xs) s = bind_result (body x s) (for_each body xs)"

text \<open>The body of the loop of lines 44 to 48, at position \<open>i\<close>.\<close>

definition signal_variables :: "row list \<Rightarrow> nat \<Rightarrow> bqm \<Rightarrow> failure + bqm" where
  "signal_variables df i m =
     bind_result (iloc (map Buy_Signal df) (int i)) (\<lambda>buy.
     bind_result
       (if buy
        then bind_result (iloc (map Close df) (int i))
               (\<lambda>c. Inr (add_variable m (buy_name i) (- c)))
        else Inr m) (\<lambda>m1.
     bind_result (iloc (map Sell_Signal df) (int i)) (\<lambda>sell.
       if sell
       then bind_result (iloc (map Close df) (int i))
              (\<lambda>c. Inr (add_variable m1 (sell_name i) c))
       else Inr m1)))"

text \<open>The body of the loop of lines 51 to 53, at position \<open>i\<close>.\<close>

definition conflict_interaction :: "row list \<Rightarrow> nat \<Rightarrow> bqm \<Rightarrow> failure + bqm" where
  "conflict_interaction df i m =
     bind_result (iloc (map Buy_Signal df) (int i)) (\<lambda>buy.
       if buy
       then bind_result (iloc (map Sell_Signal df) (int i)) (\<lambda>sell.
              if sell then add_interaction m (buy_name i) (sell_name i) 1 else Inr m)
       else Inr m)"

definition create_bqm :: "row list \<Rightarrow> failure + bqm" where
  "create_bqm df =
     bind_result (for_each (signal_variables df) [1..<length df] empty_bqm)
       (for_each (conflict_interaction df) [1..<length df])"

section \<open>The result extractor \<open>get_optimal_buy_prices\<close>\<close>

text \<open>
  A sample maps each variable to its value, in the order \<open>sample.items()\<close> yields
  them; the response is the sequence of samples with their energies.
\<close>

type_synonym sample = "(string \<times> int) list"
type_synonym response = "(sample \<times> real) list"

text \<open>Lines 96 and 97: the price at the position written after the first \<open>_\<close>.\<close>

definition buy_price :: "row list \<Rightarrow> string \<Rightarrow> failure + real" where
  "buy_price df key =
     bind_result (list_item (split_on CHR ''_'' key) 1) (\<lambda>field.
     bind_result (py_int field) (\<lambda>index.
     iloc (map Close df) index))"

definition scan_item :: "row list \<Rightarrow> string \<times> int \<Rightarrow> real list \<Rightarrow> failure + real list" where
  "scan_item df item optimal_buy_prices =
     (case item of (key, value) \<Rightarrow>
        if contains key ''buy_'' \<and> value = 1
        then bind_result (buy_price df key) (\<lambda>p. Inr (optimal_buy_prices @ [p]))
        else Inr optimal_buy_prices)"

definition scan_sample :: "row list \<Rightarrow> sample \<times> real \<Rightarrow> real list \<Rightarrow> failure + real list" where
  "scan_sample df entry optimal_buy_prices =
     (case entry of (sample, energy) \<Rightarrow> for_each (scan_item df) sample optimal_buy_prices)"

definition get_optimal_buy_prices :: "response \<Rightarrow> row list \<Rightarrow> failure + real list" where
  "get_optimal_buy_prices response df = for_each (scan_sample df) response []"

section \<open>The program \<open>main\<close>\<close>

text \<open>
  \<open>min(xs)\<close>: raises on the empty list, otherwise keeps the first item and replaces
  it whenever a later item is smaller.
\<close>

definition py_min :: "real list \<Rightarrow> failure + real" where
  "py_min xs =
     (case xs of
        [] \<Rightarrow> Inl ValueError_min_empty
      | x # rest \<Rightarrow> Inr (fold (\<lambda>y m. if y < m then y else m) rest x))"

text \<open>
  \<open>df.to_csv(path, index=False)\<close> writes one header row with the column labels and
  one row per row of the frame, without an index column. The file is modelled as the
  table of its cells; the column labels are those of lines 12, 15, 24 and 25.
\<close>

datatype cell = Text string | Number real | Flag bool

definition columns :: "string list" where
  "columns = [''Date'', ''Close''] @ [''Buy_Signal''] @ [''Sell_Signal'']"

definition to_csv :: "row list \<Rightarrow> cell list list" where
  "to_csv df =
     map Text columns #
     map (\<lambda>r. [Text (Date r), Number (Close r), Flag (Buy_Signal r), Flag (Sell_Signal r)]) df"

text \<open>
  What a run of \<open>main\<close> produces: the two printed values and the exported table.
  The solver of \<open>solve_bqm\<close> is an external service, so \<open>main\<close> takes it as a
  parameter; it also takes the frame that the script keeps in the global \<open>df\<close>.
\<close>

record report =
  optimal_buy_prices :: "real list"
  best_entry_price :: real
  trading_signals_csv :: "cell list list"

definition main :: "(bqm \<Rightarrow> failure + response) \<Rightarrow> row list \<Rightarrow> failure + report" where
  "main solve_bqm df =
     bind_result (create_bqm df) (\<lambda>bqm.
     bind_result (solve_bqm bqm) (\<lambda>response.
     bind_result (get_optimal_buy_prices response df) (\<lambda>prices.
     bind_result (py_min prices) (\<lambda>best.
     Inr \<lparr>optimal_buy_prices = prices, best_entry_price = best,
          trading_signals_csv = to_csv df\<rparr>))))"

section \<open>Closed forms used in the proofs\<close>

text \<open>
  What the two loops of \<open>create_bqm\<close> have added after the positions below \<open>n\<close>:
  the entries of one position, and their concatenation over the positions from 1.
  The builder is proved to compute them (\<open>create_bqm_built\<close>).
\<close>


definition signal_entries :: "row list \<Rightarrow> nat \<Rightarrow> (string \<times> real) list" where
  "signal_entries df i =
     (if Buy_Signal (df ! i) then [(buy_name i, - Close (df ! i))] else []) @
     (if Sell_Signal (df ! i) then [(sell_name i, Close (df ! i))] else [])"

definition conflict_entries :: "row list \<Rightarrow> nat \<Rightarrow> ((string \<times> string) \<times> real) list" where
  "conflict_entries df i =
     (if Buy_Signal (df ! i) \<and> Sell_Signal (df ! i) then [((buy_name i, sell_name i), 1)] else [])"

definition built_linear :: "row list \<Rightarrow> nat \<Rightarrow> (string \<times> real) list" where
  "built_linear df n = concat (map (signal_entries df) [1..<n])"

definition built_quadratic :: "row list \<Rightarrow> nat \<Rightarrow> ((string \<times> string) \<times> real) list" where
  "built_quadratic df n = concat (map (conflict_entries df) [1..<n])"

text \<open>
  Under the default signal rule: the odd positions from 1, the close prices there,
  and the model the builder returns (\<open>create_bqm_default\<close>). A price series has
  positive odd closes when each of these prices is above 0, as the prices of the
  script's table are.
\<close>

definition odd_positions :: "nat \<Rightarrow> nat list" where
  "odd_positions n = filter odd [1..<n]"

definition odd_closes :: "bar list \<Rightarrow> real list" where
  "odd_closes bars = map (\<lambda>i. Close (bars ! i)) (odd_positions (length bars))"

definition positive_odd_closes :: "bar list \<Rightarrow> bool" where
  "positive_odd_closes bars = list_all (\<lambda>c. 0 < c) (odd_closes bars)"

definition default_model :: "bar list \<Rightarrow> bqm" where
  "default_model bars =
     \<lparr>linear = map (\<lambda>i. (buy_name i, - Close (bars ! i))) (odd_positions (length bars)),
      quadratic = [], offset = 0\<rparr>"

section \<open>The extractor in the specification's words\<close>

text \<open>
  The specification keys a decision variable by its kind and its position, and
  describes the extractor on such keys (section 4.5): for every solution, for every
  assignment within it, if the kind is buy and the value is 1, the price at the
  variable's position is appended. \<open>selected_buy_prices\<close> follows these words;
  \<open>encode_response\<close> writes the keys the way the builder names them, which gives
  the response that the script's extractor reads.
\<close>

datatype kind = Buy | Sell

type_synonym decision = "(kind \<times> nat) \<times> int"
type_synonym solution = "decision list \<times> real"

definition var_name :: "kind \<times> nat \<Rightarrow> string" where
  "var_name v = (case v of (Buy, i) \<Rightarrow> buy_name i | (Sell, i) \<Rightarrow> sell_name i)"

definition is_selected_buy :: "decision \<Rightarrow> bool" where
  "is_selected_buy d = (case d of ((k, i), x) \<Rightarrow> k = Buy \<and> x = 1)"

definition position :: "decision \<Rightarrow> nat" where
  "position d = snd (fst d)"

definition selected_buy_prices :: "solution list \<Rightarrow> real list \<Rightarrow> real list" where
  "selected_buy_prices solutions close =
     concat (map (\<lambda>s. map (\<lambda>d. close ! position d) (filter is_selected_buy (fst s))) solutions)"

definition encode_sample :: "decision list \<Rightarrow> sample" where
  "encode_sample assignment = map (\<lambda>d. (var_name (fst d), snd d)) assignment"

definition encode_response :: "solution list \<Rightarrow> response" where
  "encode_response solutions = map (\<lambda>s. (encode_sample (fst s), snd s)) solutions"

text \<open>Every position named in the solutions is a position of a frame of \<open>n\<close> rows.\<close>

definition positions_below :: "nat \<Rightarrow> solution list \<Rightarrow> bool" where
  "positions_below n solutions =
     list_all (\<lambda>s. list_all (\<lambda>d. position d < n) (fst s)) solutions"

text \<open>No buy variable is set to 1 in any solution.\<close>

definition no_buy_selected :: "solution list \<Rightarrow> bool" where
  "no_buy_selected solutions =
     list_all (\<lambda>s. list_all (\<lambda>d. \<not> is_selected_buy d) (fst s)) solutions"

section \<open>Energies and an exact solver\<close>

text \<open>
  The energy of a sample under a model, as the solver computes it: the offset, the
  linear bias of every variable times its value, and the weight of every interaction
  times the values of its two variables. A variable the sample does not mention
  counts as 0.
\<close>

definition sample_value :: "sample \<Rightarrow> string \<Rightarrow> real" where
  "sample_value a v = (case map_of a v of Some x \<Rightarrow> real_of_int x | None \<Rightarrow> 0)"

definition energy :: "bqm \<Rightarrow> sample \<Rightarrow> real" where
  "energy m a =
     offset m
     + sum_list (map (\<lambda>entry. snd entry * sample_value a (fst entry)) (linear m))
     + sum_list (map (\<lambda>entry. snd entry * sample_value a (fst (fst entry))
                                         * sample_value a (snd (fst entry))) (quadratic m))"

text \<open>
  An assignment of a model gives each of its variables, once and in any order, the
  value 0 or 1. A minimum-energy assignment is one that no assignment undercuts: this
  is what an exact solver returns (specification, sections 4.4 and 8.5).
\<close>

definition is_assignment :: "bqm \<Rightarrow> sample \<Rightarrow> bool" where
  "is_assignment m a =
     (distinct (map fst a) \<and> set (map fst a) = set (variables m) \<and>
      list_all (\<lambda>item. snd item = 0 \<or> snd item = 1) a)"

definition minimum_energy :: "bqm \<Rightarrow> sample \<Rightarrow> bool" where
  "minimum_energy m a =
     (is_assignment m a \<and> (\<forall>a'. is_assignment m a' \<longrightarrow> energy m a \<le> energy m a'))"

text \<open>
  Modelled from the spec: the solving service is external, and sections 4.4 and 9 of
  the specification name exhaustive search over the variables as the substitute for
  it. \<open>exact_solver\<close> enumerates every assignment of the model's variables and
  returns the first one of least energy, with its energy, as a response of one
  sample.
\<close>

fun assignments :: "string list \<Rightarrow> sample list" where
  "assignments [] = [[]]"
| "assignments (v # vs) = concat (map (\<lambda>a. [(v, 0) # a, (v, 1) # a]) (assignments vs))"

fun first_min :: "(sample \<Rightarrow> real) \<Rightarrow> sample \<Rightarrow> sample list \<Rightarrow> sample" where
  "first_min f best [] = best"
| "first_min f best (a # rest) = first_min f (if f a < f best then a else best) rest"

definition exact_solver :: "bqm \<Rightarrow> failure + response" where
  "exact_solver m =
     (case assignments (variables m) of
        [] \<Rightarrow> Inl SolverError
      | a # rest \<Rightarrow> Inr [(first_min (energy m) a rest, energy m (first_min (energy m) a rest))])"

definition all_ones :: "string list \<Rightarrow> sample" where
  "all_ones vs = map (\<lambda>v. (v, 1)) vs"

text \<open>
  The decision that an item \<open>(buy_i, x)\<close> of a sample stands for.
\<close>

definition decode_buy :: "string \<times> int \<Rightarrow> decision" where
  "decode_buy item = ((Buy, digits_value (drop 4 (fst item))), snd item)"

section \<open>Example inputs\<close>

text \<open>A frame of three rows in which both kinds of signal occur.\<close>

definition two_sided_frame :: "row list" where
  "two_sided_frame =
     [\<lparr>Date = ''d0'', Close = 3, Buy_Signal = True, Sell_Signal = True\<rparr>,
      \<lparr>Date = ''d1'', Close = 5, Buy_Signal = True, Sell_Signal = True\<rparr>,
      \<lparr>Date = ''d2'', Close = 7, Buy_Signal = False, Sell_Signal = True\<rparr>]"

text \<open>
  Two solutions over the variables of that frame: the first selects \<open>buy_1\<close> and
  \<open>sell_2\<close>, the second selects \<open>sell_1\<close> only.
\<close>

definition example_solutions :: "solution list" where
  "example_solutions =
     [([((Buy, 1), 1), ((Sell, 1), 0), ((Sell, 2), 1)], 2),
      ([((Buy, 1), 0), ((Sell, 1), 1), ((Sell, 2), 0)], 5)]"

definition idle_solutions :: "solution list" where
  "idle_solutions = [([((Buy, 1), 0), ((Sell, 1), 1), ((Sell, 2), 0)], 5)]"

text \<open>
  A response to the model of the script's own table in which the solver has set
  each of the seven variables to 0.
\<close>

definition all_zero_response :: response where
  "all_zero_response =
     [([(buy_name 1, 0), (buy_name 3, 0), (buy_name 5, 0), (buy_name 7, 0),
        (buy_name 9, 0), (buy_name 11, 0), (buy_name 13, 0)], 0)]"

text \<open>
  Two price series of two rows whose only odd-indexed close price is not positive:
  one is negative, one is zero.
\<close>

definition negative_close_bars :: "bar list" where
  "negative_close_bars = [\<lparr>Date = ''d0'', Close = 1\<rparr>, \<lparr>Date = ''d1'', Close = - 2\<rparr>]"

definition zero_close_bars :: "bar list" where
  "zero_close_bars = [\<lparr>Date = ''d0'', Close = 1\<rparr>, \<lparr>Date = ''d1'', Close = 0\<rparr>]"

section \<open>The two functions as programs on a store\<close>

text \<open>
  To state what the functions leave unchanged, the objects they work on are put in a
  store: the DataFrame that the parameter \<open>df\<close> refers to, the model that
  \<open>create_bqm\<close> builds in \<open>bqm\<close>, and the list that \<open>get_optimal_buy_prices\<close>
  fills. A statement is an action on the store that returns a value or raises, and
  leaves a store behind in both cases. Reading a cell with \<open>.iloc\<close> and
  \<open>len(df)\<close> return a value and write nothing; \<open>add_variable\<close> and
  \<open>add_interaction\<close> write the model; \<open>append\<close> writes the list.
\<close>

record store =
  df_obj :: "row list"
  bqm_obj :: bqm
  prices_obj :: "real list"

type_synonym 'a action = "store \<Rightarrow> (failure + 'a) \<times> store"

definition done_with :: "'a \<Rightarrow> 'a action" where
  "done_with x s = (Inr x, s)"

definition raise_or_return :: "failure + 'a \<Rightarrow> 'a action" where
  "raise_or_return r s = (r, s)"

definition and_then :: "'a action \<Rightarrow> ('a \<Rightarrow> 'b action) \<Rightarrow> 'b action" where
  "and_then act next s =
     (case act s of
        (Inl e, s') \<Rightarrow> (Inl e, s')
      | (Inr x, s') \<Rightarrow> next x s')"

fun for_each_st :: "('i \<Rightarrow> unit action) \<Rightarrow> 'i list \<Rightarrow> unit action" where
  "for_each_st body [] = done_with ()"
| "for_each_st body (x # xs) = and_then (body x) (\<lambda>_. for_each_st body xs)"

definition len_df :: "nat action" where
  "len_df s = (Inr (length (df_obj s)), s)"

definition read_Buy_Signal :: "int \<Rightarrow> bool action" where
  "read_Buy_Signal i s = (iloc (map Buy_Signal (df_obj s)) i, s)"

definition read_Sell_Signal :: "int \<Rightarrow> bool action" where
  "read_Sell_Signal i s = (iloc (map Sell_Signal (df_obj s)) i, s)"

definition read_Close :: "int \<Rightarrow> real action" where
  "read_Close i s = (iloc (map Close (df_obj s)) i, s)"

definition new_model :: "unit action" where
  "new_model s = (Inr (), s\<lparr>bqm_obj := empty_bqm\<rparr>)"

definition model_add_variable :: "string \<Rightarrow> real \<Rightarrow> unit action" where
  "model_add_variable v b s = (Inr (), s\<lparr>bqm_obj := add_variable (bqm_obj s) v b\<rparr>)"

definition model_add_interaction :: "string \<Rightarrow> string \<Rightarrow> real \<Rightarrow> unit action" where
  "model_add_interaction u v w s =
     (case add_interaction (bqm_obj s) u v w of
        Inl e \<Rightarrow> (Inl e, s)
      | Inr m \<Rightarrow> (Inr (), s\<lparr>bqm_obj := m\<rparr>))"

definition return_model :: "bqm action" where
  "return_model s = (Inr (bqm_obj s), s)"

definition new_price_list :: "unit action" where
  "new_price_list s = (Inr (), s\<lparr>prices_obj := []\<rparr>)"

definition price_list_append :: "real \<Rightarrow> unit action" where
  "price_list_append p s = (Inr (), s\<lparr>prices_obj := prices_obj s @ [p]\<rparr>)"

definition return_price_list :: "real list action" where
  "return_price_list s = (Inr (prices_obj s), s)"

text \<open>Lines 44 to 48, 51 to 53 and the whole of \<open>create_bqm\<close>.\<close>

definition signal_variables_st :: "nat \<Rightarrow> unit action" where
  "signal_variables_st i =
     and_then (read_Buy_Signal (int i)) (\<lambda>buy.
     and_then
       (if buy
        then and_then (read_Close (int i)) (\<lambda>c. model_add_variable (buy_name i) (- c))
        else done_with ()) (\<lambda>_.
     and_then (read_Sell_Signal (int i)) (\<lambda>sell.
       if sell
       then and_then (read_Close (int i)) (\<lambda>c. model_add_variable (sell_name i) c)
       else done_with ())))"

definition conflict_interaction_st :: "nat \<Rightarrow> unit action" where
  "conflict_interaction_st i =
     and_then (read_Buy_Signal (int i)) (\<lambda>buy.
       if buy
       then and_then (read_Sell_Signal (int i)) (\<lambda>sell.
              if sell then model_add_interaction (buy_name i) (sell_name i) 1
              else done_with ())
       else done_with ())"

definition create_bqm_st :: "bqm action" where
  "create_bqm_st =
     and_then new_model (\<lambda>_.
     and_then len_df (\<lambda>n.
     and_then (for_each_st signal_variables_st [1..<n]) (\<lambda>_.
     and_then len_df (\<lambda>n'.
     and_then (for_each_st conflict_interaction_st [1..<n']) (\<lambda>_.
     return_model)))))"

text \<open>Lines 93 to 97, 92 to 97 and the whole of \<open>get_optimal_buy_prices\<close>.\<close>

definition scan_item_st :: "string \<times> int \<Rightarrow> unit action" where
  "scan_item_st item =
     (case item of (key, value) \<Rightarrow>
        if contains key ''buy_'' \<and> value = 1
        then and_then (raise_or_return (list_item (split_on CHR ''_'' key) 1)) (\<lambda>field.
             and_then (raise_or_return (py_int field)) (\<lambda>index.
             and_then (read_Close index) (\<lambda>p.
             price_list_append p)))
        else done_with ())"

definition scan_sample_st :: "sample \<times> real \<Rightarrow> unit action" where
  "scan_sample_st entry = (case entry of (sample, e) \<Rightarrow> for_each_st scan_item_st sample)"

definition get_optimal_buy_prices_st :: "response \<Rightarrow> real list action" where
  "get_optimal_buy_prices_st response =
     and_then new_price_list (\<lambda>_.
     and_then (for_each_st scan_sample_st response) (\<lambda>_.
     return_price_list))"

text \<open>
  An outcome \<open>out\<close> of a loop of the extractor on the store \<open>s\<close> tracks the
  result \<open>r\<close> of the same loop on values: it raises what \<open>r\<close> raises, it leaves
  the DataFrame and the model as they were, and when \<open>r\<close> is a list, that is the
  list in the store.
\<close>

definition tracks :: "failure + real list \<Rightarrow> store \<Rightarrow> (failure + unit) \<times> store \<Rightarrow> bool" where
  "tracks r s out =
     (fst out = (case r of Inl e \<Rightarrow> Inl e | Inr ps \<Rightarrow> Inr ()) \<and>
      df_obj (snd out) = df_obj s \<and> bqm_obj (snd out) = bqm_obj s \<and>
      (case r of Inl e \<Rightarrow> True | Inr ps \<Rightarrow> prices_obj (snd out) = ps))"

section \<open>Facts about names\<close>

lemma digit_char_is_digit: "d < 10 \<Longrightarrow> is_digit (digit_char d)"
  by (simp add: digit_char_def is_digit_def nth_Cons' )

lemma digit_val_digit_char: "d < 10 \<Longrightarrow> digit_val (digit_char d) = d"
  by (simp add: digit_char_def digit_val_def nth_Cons' split: if_splits)

lemma str_nat_digits: "list_all is_digit (str_nat n)"
proof (induction n rule: str_nat.induct)
  case (1 n)
  show ?case
  proof (cases "n < 10")
    case True
    then show ?thesis by (simp add: str_nat.simps [of n] digit_char_is_digit)
  next
    case False
    with "1" show ?thesis
      by (simp add: str_nat.simps [of n] digit_char_is_digit)
  qed
qed

lemma str_nat_nonempty: "str_nat n \<noteq> []"
  by (simp add: str_nat.simps [of n])


lemma digits_value_snoc: "digits_value (ds @ [c]) = 10 * digits_value ds + digit_val c"
  by (simp add: digits_value_def)

lemma digits_value_str_nat: "digits_value (str_nat n) = n"
proof (induction n rule: str_nat.induct)
  case (1 n)
  show ?case
  proof (cases "n < 10")
    case True
    then show ?thesis
      by (simp add: str_nat.simps [of n] digits_value_def digit_val_digit_char)
  next
    case False
    with "1" show ?thesis
      by (simp add: str_nat.simps [of n] digits_value_snoc digit_val_digit_char)
  qed
qed

lemma str_nat_inject: "str_nat i = str_nat j \<longleftrightarrow> i = j"
  by (metis digits_value_str_nat)

lemma is_digit_not_space: "is_digit c \<Longrightarrow> \<not> is_space c"
  by (auto simp add: is_digit_def is_space_def)

lemma is_digit_not_sign: "is_digit c \<Longrightarrow> c \<noteq> CHR ''-'' \<and> c \<noteq> CHR ''+'' \<and> c \<noteq> CHR ''_''"
  by (auto simp add: is_digit_def)

lemma strip_digits: "ds \<noteq> [] \<Longrightarrow> list_all is_digit ds \<Longrightarrow> strip ds = ds"
proof -
  assume ne: "ds \<noteq> []" and dg: "list_all is_digit ds"
  have "is_digit (hd ds)" using ne dg by (cases ds) simp_all
  then have a: "dropWhile is_space ds = ds"
    by (simp add: dropWhile_eq_self_iff is_digit_not_space)
  have "is_digit (last ds)" using ne dg by (simp add: list_all_iff)
  then have "\<not> is_space (hd (rev ds))" using ne by (simp add: hd_rev is_digit_not_space)
  then have b: "dropWhile is_space (rev ds) = rev ds"
    by (simp add: dropWhile_eq_self_iff)
  show ?thesis by (simp add: strip_def a b)
qed

lemma py_int_digits:
  "ds \<noteq> [] \<Longrightarrow> list_all is_digit ds \<Longrightarrow> py_int ds = Inr (int (digits_value ds))"
proof -
  assume ne: "ds \<noteq> []" and dg: "list_all is_digit ds"
  have "is_digit (hd ds)" using ne dg by (cases ds) simp_all
  then have "hd ds \<noteq> CHR ''-''" "hd ds \<noteq> CHR ''+''" using is_digit_not_sign by blast+
  then show ?thesis using ne dg by (simp add: py_int_def strip_digits Let_def)
qed

lemma py_int_str_nat: "py_int (str_nat n) = Inr (int n)"
  by (simp add: py_int_digits str_nat_nonempty str_nat_digits digits_value_str_nat)

lemma split_on_no_separator: "c \<notin> set s \<Longrightarrow> split_on c s = [s]"
  by (induction s) (auto simp add: Let_def)

lemma underscore_not_in_str_nat: "CHR ''_'' \<notin> set (str_nat n)"
  using str_nat_digits [of n] is_digit_not_sign by (auto simp add: list_all_iff)

lemma split_buy_name: "split_on CHR ''_'' (buy_name i) = [''buy'', str_nat i]"
  by (simp add: buy_name_def Let_def split_on_no_separator underscore_not_in_str_nat)

lemma split_sell_name: "split_on CHR ''_'' (sell_name i) = [''sell'', str_nat i]"
  by (simp add: sell_name_def Let_def split_on_no_separator underscore_not_in_str_nat)

lemma startswith_set: "startswith s p \<Longrightarrow> set p \<subseteq> set s"
  by (induction s p rule: startswith.induct) auto

lemma contains_set: "contains s p \<Longrightarrow> set p \<subseteq> set s"
proof (induction s p rule: contains.induct)
  case (1 needle)
  then show ?case by simp
next
  case (2 x xs needle)
  from "2.prems" have "startswith (x # xs) needle \<or> contains xs needle" by simp
  then show ?case
  proof
    assume "startswith (x # xs) needle"
    then show ?thesis by (rule startswith_set)
  next
    assume "contains xs needle"
    then have "set needle \<subseteq> set xs" by (rule "2.IH")
    then show ?thesis by auto
  qed
qed

lemma contains_buy_name: "contains (buy_name i) ''buy_''"
  by (simp add: buy_name_def)

lemma not_contains_sell_name: "\<not> contains (sell_name i) ''buy_''"
proof
  assume "contains (sell_name i) ''buy_''"
  then have "CHR ''b'' \<in> set (sell_name i)" using contains_set by fastforce
  then have "CHR ''b'' \<in> set (str_nat i)" by (simp add: sell_name_def)
  then have "is_digit CHR ''b''" using str_nat_digits [of i] by (simp add: list_all_iff)
  then show False by (simp add: is_digit_def)
qed

lemma buy_name_inject: "buy_name i = buy_name j \<longleftrightarrow> i = j"
  by (simp add: buy_name_def str_nat_inject)

lemma sell_name_inject: "sell_name i = sell_name j \<longleftrightarrow> i = j"
  by (simp add: sell_name_def str_nat_inject)

lemma buy_name_not_sell_name: "buy_name i \<noteq> sell_name j"
  by (simp add: buy_name_def sell_name_def)

lemma iloc_nat: "i < length xs \<Longrightarrow> iloc xs (int i) = Inr (xs ! i)"
  by (simp add: iloc_def)

lemma buy_price_buy_name: "buy_price df (buy_name i) = iloc (map Close df) (int i)"
  by (simp add: buy_price_def split_buy_name list_item_def py_int_str_nat)

section \<open>What \<open>create_bqm\<close> builds\<close>

lemma for_each_append:
  "for_each body (xs @ ys) s = bind_result (for_each body xs s) (for_each body ys)"
proof (induction xs arbitrary: s)
  case Nil
  then show ?case by simp
next
  case (Cons x xs)
  then show ?case by (cases "body x s") simp_all
qed

lemma add_linear_fresh: "v \<notin> fst ` set l \<Longrightarrow> add_linear v b l = l @ [(v, b)]"
  by (induction l) auto

lemma add_quadratic_fresh:
  "(u, v) \<notin> fst ` set q \<Longrightarrow> (v, u) \<notin> fst ` set q \<Longrightarrow> add_quadratic u v w q = q @ [((u, v), w)]"
  by (induction q) auto

lemma built_linear_Suc:
  "1 \<le> n \<Longrightarrow> built_linear df (Suc n) = built_linear df n @ signal_entries df n"
  by (simp add: built_linear_def)

lemma built_quadratic_Suc:
  "1 \<le> n \<Longrightarrow> built_quadratic df (Suc n) = built_quadratic df n @ conflict_entries df n"
  by (simp add: built_quadratic_def)

lemma in_built_linear:
  "(v, b) \<in> set (built_linear df n) \<longleftrightarrow>
     (\<exists>i. 1 \<le> i \<and> i < n \<and>
        ((Buy_Signal (df ! i) \<and> v = buy_name i \<and> b = - Close (df ! i)) \<or>
         (Sell_Signal (df ! i) \<and> v = sell_name i \<and> b = Close (df ! i))))"
  by (auto simp add: built_linear_def signal_entries_def split: if_splits)

lemma buy_name_in_built_linear:
  "buy_name i \<in> fst ` set (built_linear df n) \<longleftrightarrow> 1 \<le> i \<and> i < n \<and> Buy_Signal (df ! i)"
proof -
  have "buy_name i \<in> fst ` set (built_linear df n) \<longleftrightarrow>
          (\<exists>b. (buy_name i, b) \<in> set (built_linear df n))"
    by force
  then show ?thesis
    by (auto simp add: in_built_linear buy_name_inject buy_name_not_sell_name)
qed

lemma sell_name_in_built_linear:
  "sell_name i \<in> fst ` set (built_linear df n) \<longleftrightarrow> 1 \<le> i \<and> i < n \<and> Sell_Signal (df ! i)"
proof -
  have "sell_name i \<in> fst ` set (built_linear df n) \<longleftrightarrow>
          (\<exists>b. (sell_name i, b) \<in> set (built_linear df n))"
    by force
  then show ?thesis
    by (auto simp add: in_built_linear sell_name_inject buy_name_not_sell_name [symmetric])
qed

lemma signal_variables_step:
  assumes "n < length df"
  shows "signal_variables df n \<lparr>linear = built_linear df n, quadratic = [], offset = 0\<rparr> =
         Inr \<lparr>linear = built_linear df n @ signal_entries df n, quadratic = [], offset = 0\<rparr>"
proof -
  have fresh_buy: "buy_name n \<notin> fst ` set (built_linear df n)"
    by (simp add: buy_name_in_built_linear)
  have fresh_sell: "sell_name n \<notin> fst ` set (built_linear df n)"
    by (simp add: sell_name_in_built_linear)
  have fresh_sell': "sell_name n \<notin> fst ` set (built_linear df n @ [(buy_name n, b)])" for b
    using fresh_sell buy_name_not_sell_name [of n n] by auto
  show ?thesis
    using assms fresh_sell'
    by (simp add: signal_variables_def iloc_nat add_variable_def signal_entries_def
        add_linear_fresh fresh_buy fresh_sell)
qed

lemma first_loop:
  "n \<le> length df \<Longrightarrow>
   for_each (signal_variables df) [1..<n] empty_bqm =
     Inr \<lparr>linear = built_linear df n, quadratic = [], offset = 0\<rparr>"
proof (induction n)
  case 0
  then show ?case by (simp add: built_linear_def empty_bqm_def)
next
  case (Suc n)
  show ?case
  proof (cases "1 \<le> n")
    case True
    then have "[1..<Suc n] = [1..<n] @ [n]" by simp
    with Suc True show ?thesis
      by (simp add: for_each_append signal_variables_step built_linear_Suc)
  next
    case False
    then show ?thesis by (simp add: built_linear_def empty_bqm_def)
  qed
qed

lemma in_built_quadratic:
  "(p, w) \<in> set (built_quadratic df n) \<longleftrightarrow>
     (\<exists>i. 1 \<le> i \<and> i < n \<and> Buy_Signal (df ! i) \<and> Sell_Signal (df ! i) \<and>
          p = (buy_name i, sell_name i) \<and> w = 1)"
  by (auto simp add: built_quadratic_def conflict_entries_def split: if_splits)

lemma conflict_interaction_step:
  assumes "n < length df" and "1 \<le> n"
  shows "conflict_interaction df n
           \<lparr>linear = built_linear df (length df), quadratic = built_quadratic df n, offset = 0\<rparr> =
         Inr \<lparr>linear = built_linear df (length df),
              quadratic = built_quadratic df n @ conflict_entries df n, offset = 0\<rparr>"
proof (cases "Buy_Signal (df ! n) \<and> Sell_Signal (df ! n)")
  case True
  have a: "(buy_name n, sell_name n) \<notin> fst ` set (built_quadratic df n)"
    by (auto simp add: image_iff in_built_quadratic buy_name_inject)
  have b: "(sell_name n, buy_name n) \<notin> fst ` set (built_quadratic df n)"
    using buy_name_not_sell_name by (auto simp add: image_iff in_built_quadratic)
  have c: "buy_name n \<in> fst ` set (built_linear df (length df))"
    using assms True by (simp add: buy_name_in_built_linear)
  have d: "sell_name n \<in> fst ` set (built_linear df (length df))"
    using assms True by (simp add: sell_name_in_built_linear)
  show ?thesis
    using assms True a b c d buy_name_not_sell_name [of n n]
    by (simp add: conflict_interaction_def iloc_nat add_interaction_def ensure_variable_def
        add_quadratic_fresh conflict_entries_def)
next
  case False
  with assms show ?thesis
    by (auto simp add: conflict_interaction_def iloc_nat conflict_entries_def)
qed

lemma second_loop:
  "n \<le> length df \<Longrightarrow>
   for_each (conflict_interaction df) [1..<n]
       \<lparr>linear = built_linear df (length df), quadratic = [], offset = 0\<rparr> =
     Inr \<lparr>linear = built_linear df (length df), quadratic = built_quadratic df n, offset = 0\<rparr>"
proof (induction n)
  case 0
  then show ?case by (simp add: built_quadratic_def)
next
  case (Suc n)
  show ?case
  proof (cases "1 \<le> n")
    case True
    then have "[1..<Suc n] = [1..<n] @ [n]" by simp
    with Suc True show ?thesis
      by (simp add: for_each_append conflict_interaction_step built_quadratic_Suc)
  next
    case False
    then show ?thesis by (simp add: built_quadratic_def)
  qed
qed

lemma create_bqm_built:
  "create_bqm df =
     Inr \<lparr>linear = built_linear df (length df),
          quadratic = built_quadratic df (length df), offset = 0\<rparr>"
  unfolding create_bqm_def by (simp only: first_loop second_loop order_refl bind_result.simps)

lemma length_default_signals: "length (default_signals bars) = length bars"
  by (simp add: default_signals_def)

lemma default_signals_nth:
  "i < length bars \<Longrightarrow>
   default_signals bars ! i =
     \<lparr>Date = Date (bars ! i), Close = Close (bars ! i), Buy_Signal = odd i, Sell_Signal = False\<rparr>"
  by (simp add: default_signals_def odd_iff_mod_2_eq_one)

lemma concat_map_if: "concat (map (\<lambda>i. if P i then [f i] else []) xs) = map f (filter P xs)"
  by (induction xs) simp_all

lemma built_linear_default:
  assumes "n \<le> length bars"
  shows "built_linear (default_signals bars) n =
         map (\<lambda>i. (buy_name i, - Close (bars ! i))) (filter odd [1..<n])"
proof -
  have "map (signal_entries (default_signals bars)) [1..<n] =
        map (\<lambda>i. if odd i then [(buy_name i, - Close (bars ! i))] else []) [1..<n]"
    using assms by (intro map_cong) (simp_all add: signal_entries_def default_signals_nth)
  then show ?thesis by (simp only: built_linear_def concat_map_if)
qed

lemma built_quadratic_default:
  assumes "n \<le> length bars"
  shows "built_quadratic (default_signals bars) n = []"
proof -
  have "map (conflict_entries (default_signals bars)) [1..<n] = map (\<lambda>i. []) [1..<n]"
    using assms by (intro map_cong) (simp_all add: conflict_entries_def default_signals_nth)
  then show ?thesis by (simp add: built_quadratic_def)
qed

lemma distinct_built_linear: "distinct (map fst (built_linear df n))"
proof (induction n)
  case 0
  then show ?case by (simp add: built_linear_def)
next
  case (Suc n)
  show ?case
  proof (cases "1 \<le> n")
    case True
    have "distinct (map fst (signal_entries df n))"
      by (simp add: signal_entries_def buy_name_not_sell_name)
    moreover have "fst ` set (built_linear df n) \<inter> fst ` set (signal_entries df n) = {}"
      using buy_name_in_built_linear [of n df n] sell_name_in_built_linear [of n df n]
      by (force simp add: signal_entries_def split: if_splits)
    ultimately show ?thesis using Suc True by (simp add: built_linear_Suc)
  next
    case False
    then show ?thesis by (simp add: built_linear_def)
  qed
qed

lemma upt_1_3: "[1..<3] = [1, 2]"
  by (simp add: upt_rec)

section \<open>What \<open>get_optimal_buy_prices\<close> collects\<close>

lemma scan_item_encoded:
  assumes "position d < length df"
  shows "scan_item df (var_name (fst d), snd d) acc =
         Inr (acc @ (if is_selected_buy d then [Close (df ! position d)] else []))"
proof -
  obtain k i x where fields: "d = ((k, i), x)" by (metis surj_pair)
  show ?thesis
  proof (cases k)
    case Buy
    with fields assms show ?thesis
      by (simp add: scan_item_def var_name_def is_selected_buy_def position_def
          contains_buy_name buy_price_buy_name iloc_nat)
  next
    case Sell
    with fields show ?thesis
      by (simp add: scan_item_def var_name_def is_selected_buy_def not_contains_sell_name)
  qed
qed

lemma scan_sample_pair:
  "scan_sample df (sample, e) acc = for_each (scan_item df) sample acc"
  by (simp add: scan_sample_def)

lemma scan_encoded_sample:
  "list_all (\<lambda>d. position d < length df) a \<Longrightarrow>
   for_each (scan_item df) (encode_sample a) acc =
     Inr (acc @ map (\<lambda>d. Close (df ! position d)) (filter is_selected_buy a))"
proof (induction a arbitrary: acc)
  case Nil
  then show ?case by (simp add: encode_sample_def)
next
  case (Cons d a)
  then have "for_each (scan_item df) (encode_sample a) acc' =
     Inr (acc' @ map (\<lambda>d. Close (df ! position d)) (filter is_selected_buy a))" for acc'
    by simp
  with Cons.prems show ?case
    by (simp add: encode_sample_def scan_item_encoded)
qed

lemma scan_encoded_response:
  "positions_below (length df) sols \<Longrightarrow>
   for_each (scan_sample df) (encode_response sols) acc =
     Inr (acc @ selected_buy_prices sols (map Close df))"
proof (induction sols arbitrary: acc)
  case Nil
  then show ?case by (simp add: encode_response_def selected_buy_prices_def)
next
  case (Cons s sols)
  from Cons.prems have here: "list_all (\<lambda>d. position d < length df) (fst s)"
    and rest: "positions_below (length df) sols"
    by (simp_all add: positions_below_def)
  have pr: "map (\<lambda>d. map Close df ! position d) (filter is_selected_buy (fst s)) =
            map (\<lambda>d. Close (df ! position d)) (filter is_selected_buy (fst s))"
    using here by (intro map_cong) (auto simp add: list_all_iff)
  have "for_each (scan_sample df) (encode_response (s # sols)) acc =
        bind_result (for_each (scan_item df) (encode_sample (fst s)) acc)
          (for_each (scan_sample df) (encode_response sols))"
    by (simp add: encode_response_def scan_sample_pair)
  also have "\<dots> = Inr ((acc @ map (\<lambda>d. Close (df ! position d)) (filter is_selected_buy (fst s)))
                       @ selected_buy_prices sols (map Close df))"
    using Cons.IH [OF rest] by (simp add: scan_encoded_sample [OF here])
  finally show ?case by (simp add: selected_buy_prices_def pr)
qed

lemma py_min_step: "(\<lambda>y m. if y < m then y else m) = (min :: real \<Rightarrow> real \<Rightarrow> real)"
  by (intro ext) (simp add: min_def)

lemma py_min_eq:
  "py_min xs = (if xs = [] then Inl ValueError_min_empty else Inr (Min (set xs)))"
proof (cases xs)
  case Nil
  then show ?thesis by (simp add: py_min_def)
next
  case (Cons x rest)
  have "fold min rest x = Min (set (x # rest))" by (simp only: Min.set_eq_fold)
  with Cons show ?thesis by (simp add: py_min_def py_min_step)
qed

lemma scan_idle_sample:
  "list_all (\<lambda>d. \<not> is_selected_buy d) a \<Longrightarrow>
   for_each (scan_item df) (encode_sample a) acc = Inr acc"
proof (induction a)
  case Nil
  then show ?case by (simp add: encode_sample_def)
next
  case (Cons d a)
  obtain k i x where d: "d = ((k, i), x)" by (metis surj_pair)
  from Cons.prems d have "\<not> (k = Buy \<and> x = 1)" by (simp add: is_selected_buy_def)
  then have "scan_item df (var_name (fst d), snd d) acc = Inr acc"
    using d by (cases k) (simp_all add: scan_item_def var_name_def not_contains_sell_name)
  with Cons show ?case by (simp add: encode_sample_def)
qed

lemma scan_idle_response:
  "no_buy_selected sols \<Longrightarrow> for_each (scan_sample df) (encode_response sols) acc = Inr acc"
proof (induction sols)
  case Nil
  then show ?case by (simp add: encode_response_def)
next
  case (Cons s sols)
  then have "for_each (scan_sample df) (encode_response sols) acc = Inr acc"
    and "list_all (\<lambda>d. \<not> is_selected_buy d) (fst s)"
    by (simp_all add: no_buy_selected_def)
  then show ?case
    using scan_idle_sample [of "fst s" df acc]
    by (simp add: encode_response_def scan_sample_pair)
qed

lemma global_df_script: "global_df = Inr (default_signals script_bars)"
  by (simp add: global_df_def DataFrame_def data_Date_def data_Close_def script_bars_def)

section \<open>Minimum-energy assignments of the default model\<close>

lemma first_min_least:
  "first_min f b rest \<in> set (b # rest) \<and> (\<forall>x \<in> set (b # rest). f (first_min f b rest) \<le> f x)"
proof (induction rest arbitrary: b)
  case Nil
  then show ?case by simp
next
  case (Cons a rest)
  let ?b = "if f a < f b then a else b"
  from Cons [of ?b] have mem: "first_min f ?b rest \<in> set (?b # rest)"
    and least: "\<forall>x \<in> set (?b # rest). f (first_min f ?b rest) \<le> f x" by blast+
  from least have "f (first_min f ?b rest) \<le> f ?b" by simp
  then have "f (first_min f ?b rest) \<le> f a" "f (first_min f ?b rest) \<le> f b"
    by (auto split: if_splits)
  with mem least show ?case by (auto split: if_splits)
qed

lemma assignments_nonempty: "assignments vs \<noteq> []"
  by (induction vs) auto

lemma all_ones_enumerated: "all_ones vs \<in> set (assignments vs)"
  by (induction vs) (auto simp add: all_ones_def)

lemma enumerated_keys: "a \<in> set (assignments vs) \<Longrightarrow> map fst a = vs"
  by (induction vs arbitrary: a) auto

lemma enumerated_binary:
  "a \<in> set (assignments vs) \<Longrightarrow> list_all (\<lambda>item. snd item = 0 \<or> snd item = 1) a"
  by (induction vs arbitrary: a) auto

lemma enumerated_is_assignment:
  "distinct (variables m) \<Longrightarrow> a \<in> set (assignments (variables m)) \<Longrightarrow> is_assignment m a"
  by (simp add: is_assignment_def enumerated_keys enumerated_binary)

lemma sample_value_item:
  "distinct (map fst a) \<Longrightarrow> (k, x) \<in> set a \<Longrightarrow> sample_value a k = real_of_int x"
  by (simp add: sample_value_def)

lemma sample_value_binary:
  assumes "is_assignment m a" and "v \<in> set (variables m)"
  shows "sample_value a v = 0 \<or> sample_value a v = 1"
proof -
  from assms have "v \<in> set (map fst a)" by (simp add: is_assignment_def)
  then obtain x where item: "(v, x) \<in> set a" by auto
  with assms have "x = 0 \<or> x = 1" by (auto simp add: is_assignment_def list_all_iff)
  moreover from assms item have "sample_value a v = real_of_int x"
    by (simp add: is_assignment_def sample_value_item)
  ultimately show ?thesis by auto
qed

lemma sample_value_all_ones: "v \<in> set vs \<Longrightarrow> sample_value (all_ones vs) v = 1"
  by (induction vs) (auto simp add: all_ones_def sample_value_def)

lemma all_ones_is_assignment: "distinct (variables m) \<Longrightarrow> is_assignment m (all_ones (variables m))"
  by (simp add: is_assignment_def all_ones_def comp_def list_all_iff)

lemma negative_sum_bound:
  assumes "list_all (\<lambda>entry. snd entry < 0) l"
    and "\<forall>v \<in> set (map fst l). val v = 0 \<or> val v = (1::real)"
  shows "sum_list (map snd l) \<le> sum_list (map (\<lambda>entry. snd entry * val (fst entry)) l) \<and>
         (sum_list (map (\<lambda>entry. snd entry * val (fst entry)) l) = sum_list (map snd l)
            \<longrightarrow> (\<forall>v \<in> set (map fst l). val v = 1))"
  using assms
proof (induction l)
  case Nil
  then show ?case by simp
next
  case (Cons entry l)
  obtain v b where entry: "entry = (v, b)" by (cases entry)
  from Cons.prems entry have neg: "b < 0" and bin: "val v = 0 \<or> val v = 1" by simp_all
  from Cons have ih1: "sum_list (map snd l) \<le> sum_list (map (\<lambda>entry. snd entry * val (fst entry)) l)"
    and ih2: "sum_list (map (\<lambda>entry. snd entry * val (fst entry)) l) = sum_list (map snd l)
            \<Longrightarrow> (\<forall>v \<in> set (map fst l). val v = 1)"
    by simp_all
  from neg bin have here: "b \<le> b * val v" by auto
  have strict: "val v = 1" if "b * val v = b" using that neg bin by auto
  show ?case
  proof (intro conjI impI)
    show "sum_list (map snd (entry # l)) \<le> sum_list (map (\<lambda>entry. snd entry * val (fst entry)) (entry # l))"
      using ih1 here entry by simp
  next
    assume eq: "sum_list (map (\<lambda>entry. snd entry * val (fst entry)) (entry # l)) = sum_list (map snd (entry # l))"
    then have "b * val v + sum_list (map (\<lambda>entry. snd entry * val (fst entry)) l) = b + sum_list (map snd l)"
      using entry by simp
    with ih1 here have "b * val v = b" and "sum_list (map (\<lambda>entry. snd entry * val (fst entry)) l) = sum_list (map snd l)"
      by linarith+
    then show "\<forall>v \<in> set (map fst (entry # l)). val v = 1"
      using strict ih2 entry by auto
  qed
qed

lemma create_bqm_default: "create_bqm (default_signals bars) = Inr (default_model bars)"
  by (simp add: create_bqm_built length_default_signals built_linear_default
      built_quadratic_default default_model_def odd_positions_def)

lemma variables_default_model:
  "variables (default_model bars) = map buy_name (odd_positions (length bars))"
  by (simp add: variables_def default_model_def comp_def)

lemma distinct_default_model: "distinct (variables (default_model bars))"
  by (simp add: variables_default_model distinct_map odd_positions_def inj_on_def buy_name_inject)

lemma negative_default_model:
  "positive_odd_closes bars \<Longrightarrow> list_all (\<lambda>entry. snd entry < 0) (linear (default_model bars))"
  by (simp add: positive_odd_closes_def odd_closes_def default_model_def list_all_iff)

lemma energy_default_model:
  "energy (default_model bars) a =
     sum_list (map (\<lambda>entry. snd entry * sample_value a (fst entry)) (linear (default_model bars)))"
  by (simp add: energy_def default_model_def)

lemma energy_all_ones_default:
  "energy (default_model bars) (all_ones (variables (default_model bars))) =
     sum_list (map snd (linear (default_model bars)))"
proof -
  have "map (\<lambda>entry. snd entry * sample_value (all_ones (variables (default_model bars))) (fst entry))
          (linear (default_model bars)) = map snd (linear (default_model bars))"
    by (intro map_idI map_cong refl) (simp add: sample_value_all_ones variables_def)
  then show ?thesis by (simp only: energy_default_model)
qed

lemma low_energy_all_ones:
  assumes pos: "positive_odd_closes bars"
    and asg: "is_assignment (default_model bars) a"
  shows "energy (default_model bars) (all_ones (variables (default_model bars)))
           \<le> energy (default_model bars) a"
    and "energy (default_model bars) a
           \<le> energy (default_model bars) (all_ones (variables (default_model bars)))
         \<Longrightarrow> \<forall>v \<in> set (variables (default_model bars)). sample_value a v = 1"
proof -
  let ?m = "default_model bars"
  have bin: "\<forall>v \<in> set (map fst (linear ?m)). sample_value a v = 0 \<or> sample_value a v = 1"
    using sample_value_binary [OF asg] by (simp add: variables_def)
  note bound = negative_sum_bound [OF negative_default_model [OF pos] bin]
  have ones: "energy ?m (all_ones (variables ?m)) = sum_list (map snd (linear ?m))"
    by (rule energy_all_ones_default)
  have mine: "energy ?m a =
      sum_list (map (\<lambda>entry. snd entry * sample_value a (fst entry)) (linear ?m))"
    by (rule energy_default_model)
  from bound show low: "energy ?m (all_ones (variables ?m)) \<le> energy ?m a"
    unfolding ones mine by blast
  assume "energy ?m a \<le> energy ?m (all_ones (variables ?m))"
  with low have "energy ?m a = energy ?m (all_ones (variables ?m))" by simp
  then have "sum_list (map (\<lambda>entry. snd entry * sample_value a (fst entry)) (linear ?m))
              = sum_list (map snd (linear ?m))"
    unfolding ones mine .
  with bound show "\<forall>v \<in> set (variables ?m). sample_value a v = 1"
    by (simp add: variables_def)
qed

lemma minimum_energy_values:
  assumes "positive_odd_closes bars" and "minimum_energy (default_model bars) a"
  shows "\<forall>v \<in> set (variables (default_model bars)). sample_value a v = 1"
proof -
  from assms(2) have asg: "is_assignment (default_model bars) a"
    and "energy (default_model bars) a
           \<le> energy (default_model bars) (all_ones (variables (default_model bars)))"
    by (simp_all add: minimum_energy_def all_ones_is_assignment distinct_default_model)
  with assms(1) show ?thesis using low_energy_all_ones(2) by blast
qed

lemma all_ones_minimum_energy:
  "positive_odd_closes bars \<Longrightarrow>
   minimum_energy (default_model bars) (all_ones (variables (default_model bars)))"
  by (simp add: minimum_energy_def all_ones_is_assignment distinct_default_model
      low_energy_all_ones(1))

lemma values_one_items:
  assumes "is_assignment m a" and "\<forall>v \<in> set (variables m). sample_value a v = 1"
    and "item \<in> set a"
  shows "snd item = 1" and "fst item \<in> set (variables m)"
proof -
  obtain k x where item: "item = (k, x)" by (cases item)
  from assms item show "fst item \<in> set (variables m)"
    by (force simp add: is_assignment_def)
  with assms have "sample_value a k = 1" using item by simp
  moreover from assms item have "sample_value a k = real_of_int x"
    by (simp add: is_assignment_def sample_value_item)
  ultimately show "snd item = 1" using item by simp
qed

lemma map_of_all_ones:
  assumes "is_assignment m a" and "\<forall>v \<in> set (variables m). sample_value a v = 1"
  shows "map_of a = map_of (all_ones (variables m))"
proof
  fix v
  show "map_of a v = map_of (all_ones (variables m)) v"
  proof (cases "v \<in> set (variables m)")
    case True
    then have "v \<in> set (map fst a)" using assms(1) by (simp add: is_assignment_def)
    then obtain x where item: "(v, x) \<in> set a" by auto
    with assms have "x = 1" using values_one_items(1) by fastforce
    with item assms(1) have "map_of a v = Some 1" by (simp add: is_assignment_def)
    moreover from True have "map_of (all_ones (variables m)) v = Some 1"
      by (induction "variables m") (auto simp add: all_ones_def map_of_map_restrict)
    ultimately show ?thesis by simp
  next
    case False
    then have "v \<notin> set (map fst a)" using assms(1) by (simp add: is_assignment_def)
    then have "map_of a v = None" by (simp add: map_of_eq_None_iff)
    moreover from False have "map_of (all_ones (variables m)) v = None"
      by (force simp add: map_of_eq_None_iff all_ones_def)
    ultimately show ?thesis by simp
  qed
qed


lemma decode_buy_name: "decode_buy (buy_name i, x) = ((Buy, i), x)"
  by (simp add: decode_buy_def buy_name_def digits_value_str_nat)

lemma one_sample_prices:
  assumes asg: "is_assignment (default_model bars) a"
    and ones: "\<forall>v \<in> set (variables (default_model bars)). sample_value a v = 1"
  shows "get_optimal_buy_prices [(a, e)] (default_signals bars) =
           Inr (map (\<lambda>item. Close (bars ! position (decode_buy item))) a)"
    and "set (map (\<lambda>item. Close (bars ! position (decode_buy item))) a) = set (odd_closes bars)"
proof -
  let ?n = "length bars"
  have item: "\<exists>i. i \<in> set (odd_positions ?n) \<and> item = (buy_name i, 1)" if "item \<in> set a" for item
  proof -
    from values_one_items [OF asg ones that]
    have "snd item = 1" and "fst item \<in> set (variables (default_model bars))" by simp_all
    then show ?thesis by (cases item) (auto simp add: variables_default_model)
  qed
  have below: "i < ?n" if "i \<in> set (odd_positions ?n)" for i
    using that by (simp add: odd_positions_def)
  have enc: "encode_sample (map decode_buy a) = a"
    unfolding encode_sample_def map_map
  proof (rule map_idI)
    fix item assume "item \<in> set a"
    with item obtain i where "item = (buy_name i, 1)" by blast
    then show "((\<lambda>d. (var_name (fst d), snd d)) \<circ> decode_buy) item = item"
      by (simp add: decode_buy_name var_name_def)
  qed
  have inside: "list_all (\<lambda>d. position d < length (default_signals bars)) (map decode_buy a)"
    unfolding list_all_iff
  proof
    fix d assume "d \<in> set (map decode_buy a)"
    then obtain it where "it \<in> set a" and "d = decode_buy it" by auto
    with item obtain i where "i \<in> set (odd_positions ?n)" and "d = ((Buy, i), 1)"
      by (metis decode_buy_name)
    then show "position d < length (default_signals bars)"
      using below by (simp add: position_def length_default_signals)
  qed
  have sel: "filter is_selected_buy (map decode_buy a) = map decode_buy a"
    unfolding filter_id_conv
  proof
    fix d assume "d \<in> set (map decode_buy a)"
    then obtain it where "it \<in> set a" and "d = decode_buy it" by auto
    with item obtain i where "d = ((Buy, i), 1)" by (metis decode_buy_name)
    then show "is_selected_buy d" by (simp add: is_selected_buy_def)
  qed
  have price: "map (\<lambda>d. Close (default_signals bars ! position d)) (map decode_buy a) =
               map (\<lambda>item. Close (bars ! position (decode_buy item))) a"
    unfolding map_map
  proof (rule map_cong [OF refl])
    fix it assume "it \<in> set a"
    with item obtain i where "i \<in> set (odd_positions ?n)" and "it = (buy_name i, 1)" by blast
    then show "((\<lambda>d. Close (default_signals bars ! position d)) \<circ> decode_buy) it =
               Close (bars ! position (decode_buy it))"
      using below by (simp add: decode_buy_name position_def default_signals_nth)
  qed
  have "for_each (scan_item (default_signals bars)) (encode_sample (map decode_buy a)) [] =
          Inr ([] @ map (\<lambda>d. Close (default_signals bars ! position d))
                       (filter is_selected_buy (map decode_buy a)))"
    by (rule scan_encoded_sample [OF inside])
  then have "for_each (scan_item (default_signals bars)) a [] =
          Inr (map (\<lambda>item. Close (bars ! position (decode_buy item))) a)"
    unfolding enc sel price by simp
  then show "get_optimal_buy_prices [(a, e)] (default_signals bars) =
           Inr (map (\<lambda>item. Close (bars ! position (decode_buy item))) a)"
    by (simp add: get_optimal_buy_prices_def scan_sample_pair)
  have "set (map (\<lambda>item. Close (bars ! position (decode_buy item))) a) =
        (\<lambda>i. Close (bars ! i)) ` set (odd_positions ?n)"
  proof (intro set_eqI iffI)
    fix c assume "c \<in> set (map (\<lambda>item. Close (bars ! position (decode_buy item))) a)"
    then obtain it where "it \<in> set a" and c: "c = Close (bars ! position (decode_buy it))" by auto
    with item obtain i where "i \<in> set (odd_positions ?n)" and "it = (buy_name i, 1)" by blast
    with c show "c \<in> (\<lambda>i. Close (bars ! i)) ` set (odd_positions ?n)"
      by (simp add: decode_buy_name position_def)
  next
    fix c assume "c \<in> (\<lambda>i. Close (bars ! i)) ` set (odd_positions ?n)"
    then obtain i where i: "i \<in> set (odd_positions ?n)" and c: "c = Close (bars ! i)" by auto
    then have "buy_name i \<in> set (map fst a)"
      using asg by (simp add: is_assignment_def variables_default_model)
    then obtain x where mem: "(buy_name i, x) \<in> set a" by auto
    with item have "Close (bars ! position (decode_buy (buy_name i, x))) = c"
      using c by (simp add: decode_buy_name position_def)
    with mem show "c \<in> set (map (\<lambda>item. Close (bars ! position (decode_buy item))) a)"
      by force
  qed
  then show "set (map (\<lambda>item. Close (bars ! position (decode_buy item))) a) = set (odd_closes bars)"
    by (simp add: odd_closes_def)
qed

lemma odd_closes_nonempty: "2 \<le> length bars \<Longrightarrow> odd_closes bars \<noteq> []"
proof -
  assume "2 \<le> length bars"
  then have "1 \<in> set (odd_positions (length bars))" by (simp add: odd_positions_def)
  then show ?thesis by (auto simp add: odd_closes_def)
qed

lemma default_rule_best_entry:
  assumes len: "2 \<le> length bars" and pos: "positive_odd_closes bars"
    and solved: "solve_bqm (default_model bars) = Inr [(a, e)]"
    and least: "minimum_energy (default_model bars) a"
  shows "map_of a = map_of (all_ones (variables (default_model bars)))"
    and "\<exists>r. main solve_bqm (default_signals bars) = Inr r \<and>
             set (optimal_buy_prices r) = set (odd_closes bars) \<and>
             best_entry_price r = Min (set (odd_closes bars))"
proof -
  from least have asg: "is_assignment (default_model bars) a" by (simp add: minimum_energy_def)
  note ones = minimum_energy_values [OF pos least]
  show "map_of a = map_of (all_ones (variables (default_model bars)))"
    using asg ones by (rule map_of_all_ones)
  let ?prices = "map (\<lambda>item. Close (bars ! position (decode_buy item))) a"
  note got = one_sample_prices(1) [OF asg ones, of e] one_sample_prices(2) [OF asg ones]
  from got(2) odd_closes_nonempty [OF len] have "?prices \<noteq> []" by auto
  then have "py_min ?prices = Inr (Min (set (odd_closes bars)))"
    using got(2) by (simp add: py_min_eq)
  then show "\<exists>r. main solve_bqm (default_signals bars) = Inr r \<and>
             set (optimal_buy_prices r) = set (odd_closes bars) \<and>
             best_entry_price r = Min (set (odd_closes bars))"
    using got by (simp add: main_def create_bqm_default solved)
qed

lemma exact_solver_default:
  assumes pos: "positive_odd_closes bars"
  shows "exact_solver (default_model bars) =
           Inr [(all_ones (variables (default_model bars)),
                 energy (default_model bars) (all_ones (variables (default_model bars))))]"
proof -
  let ?m = "default_model bars"
  obtain b rest where cands: "assignments (variables ?m) = b # rest"
    using assignments_nonempty [of "variables ?m"] by (cases "assignments (variables ?m)") auto
  let ?best = "first_min (energy ?m) b rest"
  from first_min_least [of "energy ?m" b rest] cands
  have mem: "?best \<in> set (assignments (variables ?m))"
    and low: "\<forall>x \<in> set (assignments (variables ?m)). energy ?m ?best \<le> energy ?m x"
    by simp_all
  from low all_ones_enumerated have "energy ?m ?best \<le> energy ?m (all_ones (variables ?m))"
    by blast
  moreover have asg: "is_assignment ?m ?best"
    using mem by (simp add: enumerated_is_assignment distinct_default_model)
  ultimately have ones: "\<forall>v \<in> set (variables ?m). sample_value ?best v = 1"
    using low_energy_all_ones(2) [OF pos] by blast
  have "?best = all_ones (variables ?m)"
    unfolding all_ones_def
  proof (rule nth_equalityI)
    show "length ?best = length (map (\<lambda>v. (v, 1)) (variables ?m))"
      using enumerated_keys [OF mem] by (metis length_map)
  next
    fix i assume i: "i < length ?best"
    then have "?best ! i \<in> set ?best" by simp
    from values_one_items(1) [OF asg ones this] have "snd (?best ! i) = 1" .
    moreover have "fst (?best ! i) = variables ?m ! i"
      using enumerated_keys [OF mem] i by (metis nth_map)
    moreover have "i < length (variables ?m)"
      using enumerated_keys [OF mem] i by (metis length_map)
    ultimately show "?best ! i = map (\<lambda>v. (v, 1)) (variables ?m) ! i"
      by (simp add: prod_eq_iff)
  qed
  then show ?thesis by (simp add: exact_solver_def cands)
qed

lemma length_script_bars: "length script_bars = 14"
  by (simp add: script_bars_def data_Date_def data_Close_def)

lemma odd_positions_14: "odd_positions 14 = [1, 3, 5, 7, 9, 11, 13]"
  by (simp add: odd_positions_def upt_rec)

lemma odd_closes_script:
  "odd_closes script_bars =
     [896 / 100, 846 / 100, 859 / 100, 853 / 100, 852 / 100, 852 / 100, 856 / 100]"
proof -
  have "odd_closes script_bars = map (\<lambda>i. Close (script_bars ! i)) [1, 3, 5, 7, 9, 11, 13]"
    by (simp only: odd_closes_def length_script_bars odd_positions_14)
  then show ?thesis by (simp add: script_bars_def data_Date_def data_Close_def)
qed

lemma positive_script: "positive_odd_closes script_bars"
  by (simp add: positive_odd_closes_def odd_closes_script)

lemma min_odd_closes_script: "Min (set (odd_closes script_bars)) = 846 / 100"
  by (simp add: odd_closes_script)

lemma odd_positions_two_rows: "length bars = 2 \<Longrightarrow> odd_positions (length bars) = [1]"
  by (simp add: odd_positions_def upt_rec)

lemma default_model_negative:
  "default_model negative_close_bars = \<lparr>linear = [(buy_name 1, 2)], quadratic = [], offset = 0\<rparr>"
proof -
  have "odd_positions (length negative_close_bars) = [1]"
    by (rule odd_positions_two_rows) (simp add: negative_close_bars_def)
  then have "default_model negative_close_bars =
      \<lparr>linear = [(buy_name 1, - Close (negative_close_bars ! 1))], quadratic = [], offset = 0\<rparr>"
    by (simp only: default_model_def list.map)
  then show ?thesis by (simp add: negative_close_bars_def)
qed

lemma default_model_zero:
  "default_model zero_close_bars = \<lparr>linear = [(buy_name 1, 0)], quadratic = [], offset = 0\<rparr>"
proof -
  have "odd_positions (length zero_close_bars) = [1]"
    by (rule odd_positions_two_rows) (simp add: zero_close_bars_def)
  then have "default_model zero_close_bars =
      \<lparr>linear = [(buy_name 1, - Close (zero_close_bars ! 1))], quadratic = [], offset = 0\<rparr>"
    by (simp only: default_model_def list.map)
  then show ?thesis by (simp add: zero_close_bars_def)
qed

lemma one_variable_energy:
  "energy \<lparr>linear = [(v, b)], quadratic = [], offset = 0\<rparr> a = b * sample_value a v"
  by (simp add: energy_def)

lemma one_variable_assignment:
  "x = 0 \<or> x = 1 \<Longrightarrow> is_assignment \<lparr>linear = [(v, b)], quadratic = [], offset = 0\<rparr> [(v, x)]"
  by (auto simp add: is_assignment_def variables_def)

lemma one_variable_minimum:
  assumes "x = 0 \<or> x = 1" and "b * real_of_int x \<le> 0" and "b * real_of_int x \<le> b"
  shows "minimum_energy \<lparr>linear = [(v, b)], quadratic = [], offset = 0\<rparr> [(v, x)]"
proof -
  let ?m = "\<lparr>linear = [(v, b)], quadratic = [], offset = 0\<rparr>"
  have mine: "energy ?m [(v, x)] = b * real_of_int x"
    by (simp add: one_variable_energy sample_value_def)
  have "energy ?m [(v, x)] \<le> energy ?m a'" if "is_assignment ?m a'" for a'
  proof -
    have "sample_value a' v = 0 \<or> sample_value a' v = 1"
      using sample_value_binary [OF that, of v] by (simp add: variables_def)
    then show ?thesis using assms(2,3) unfolding mine by (auto simp add: one_variable_energy)
  qed
  then show ?thesis using assms(1) by (simp add: minimum_energy_def one_variable_assignment)
qed

lemma odd_closes_set:
  "set (odd_closes bars) = {Close (bars ! i) | i. i < length bars \<and> odd i}"
proof -
  have "set (odd_positions (length bars)) = {i. i < length bars \<and> odd i}"
    by (auto simp add: odd_positions_def dest: odd_pos)
  then show ?thesis by (auto simp add: odd_closes_def)
qed

lemma default_signals_inject:
  assumes "default_signals bars = default_signals bars'"
  shows "bars = bars'"
proof (rule nth_equalityI)
  from assms have "length (default_signals bars) = length (default_signals bars')" by simp
  then show len: "length bars = length bars'" by (simp add: length_default_signals)
  fix i assume i: "i < length bars"
  with len have i': "i < length bars'" by simp
  from assms have "default_signals bars ! i = default_signals bars' ! i" by simp
  then have "Date (bars ! i) = Date (bars' ! i) \<and> Close (bars ! i) = Close (bars' ! i)"
    by (simp add: default_signals_nth i i')
  then show "bars ! i = bars' ! i" by simp
qed

lemma script_run:
  "\<exists>r. main exact_solver (default_signals script_bars) = Inr r"
proof -
  have len: "2 \<le> length script_bars" by (simp add: length_script_bars)
  from default_rule_best_entry(2) [where solve_bqm = exact_solver,
      OF len positive_script exact_solver_default [OF positive_script]
         all_ones_minimum_energy [OF positive_script]]
  show ?thesis by blast
qed

section \<open>The programs on the store compute the functions\<close>

lemma and_then_returns:
  "act s = (Inr x, s') \<Longrightarrow> and_then act next s = next x s'"
  by (simp add: and_then_def)

lemma and_then_raises:
  "act s = (Inl e, s') \<Longrightarrow> and_then act next s = (Inl e, s')"
  by (simp add: and_then_def)

lemma signal_variables_st_in_range:
  assumes "i < length (df_obj s)"
  shows "\<exists>m. signal_variables (df_obj s) i (bqm_obj s) = Inr m \<and>
             signal_variables_st i s = (Inr (), s\<lparr>bqm_obj := m\<rparr>)"
  using assms
  by (simp add: signal_variables_def signal_variables_st_def and_then_def read_Buy_Signal_def
      read_Sell_Signal_def read_Close_def model_add_variable_def done_with_def iloc_nat)

lemma conflict_interaction_st_in_range:
  assumes "i < length (df_obj s)"
  shows "\<exists>m. conflict_interaction (df_obj s) i (bqm_obj s) = Inr m \<and>
             conflict_interaction_st i s = (Inr (), s\<lparr>bqm_obj := m\<rparr>)"
  using assms buy_name_not_sell_name [of i i]
  by (simp add: conflict_interaction_def conflict_interaction_st_def and_then_def
      read_Buy_Signal_def read_Sell_Signal_def model_add_interaction_def add_interaction_def
      done_with_def iloc_nat)

lemma loop_on_model:
  assumes step: "\<And>i s. i < length (df_obj s) \<Longrightarrow>
            \<exists>m. body (df_obj s) i (bqm_obj s) = Inr m \<and> body_st i s = (Inr (), s\<lparr>bqm_obj := m\<rparr>)"
    and range: "\<forall>i \<in> set xs. i < length (df_obj s)"
  shows "\<exists>m. for_each (body (df_obj s)) xs (bqm_obj s) = Inr m \<and>
             for_each_st body_st xs s = (Inr (), s\<lparr>bqm_obj := m\<rparr>)"
  using range
proof (induction xs arbitrary: s)
  case Nil
  then show ?case by (simp add: done_with_def)
next
  case (Cons i xs)
  from Cons.prems have "i < length (df_obj s)" by simp
  from step [OF this] obtain m where here: "body (df_obj s) i (bqm_obj s) = Inr m"
    and here_st: "body_st i s = (Inr (), s\<lparr>bqm_obj := m\<rparr>)" by blast
  let ?s = "s\<lparr>bqm_obj := m\<rparr>"
  from Cons.prems have "\<forall>i \<in> set xs. i < length (df_obj ?s)" by simp
  from Cons.IH [OF this] obtain m' where rest: "for_each (body (df_obj s)) xs m = Inr m'"
    and rest_st: "for_each_st body_st xs ?s = (Inr (), s\<lparr>bqm_obj := m'\<rparr>)" by auto
  show ?case
    by (simp add: here rest and_then_def here_st rest_st)
qed

lemma create_bqm_st_run:
  "\<exists>m. create_bqm (df_obj s) = Inr m \<and> create_bqm_st s = (Inr m, s\<lparr>bqm_obj := m\<rparr>)"
proof -
  let ?s0 = "s\<lparr>bqm_obj := empty_bqm\<rparr>"
  have r: "\<forall>i \<in> set [1..<length (df_obj s)]. i < length (df_obj ?s0)" by simp
  from loop_on_model [of signal_variables signal_variables_st, OF signal_variables_st_in_range r]
  obtain m1 where first: "for_each (signal_variables (df_obj s)) [1..<length (df_obj s)] empty_bqm = Inr m1"
    and first_st: "for_each_st signal_variables_st [1..<length (df_obj s)] ?s0 = (Inr (), s\<lparr>bqm_obj := m1\<rparr>)"
    by auto
  let ?s1 = "s\<lparr>bqm_obj := m1\<rparr>"
  have r1: "\<forall>i \<in> set [1..<length (df_obj s)]. i < length (df_obj ?s1)" by simp
  from loop_on_model [of conflict_interaction conflict_interaction_st,
      OF conflict_interaction_st_in_range r1]
  obtain m2 where second: "for_each (conflict_interaction (df_obj s)) [1..<length (df_obj s)] m1 = Inr m2"
    and second_st: "for_each_st conflict_interaction_st [1..<length (df_obj s)] ?s1 = (Inr (), s\<lparr>bqm_obj := m2\<rparr>)"
    by auto
  have "create_bqm (df_obj s) = Inr m2"
    by (simp only: create_bqm_def first second bind_result.simps)
  moreover have "create_bqm_st s = (Inr m2, s\<lparr>bqm_obj := m2\<rparr>)"
    unfolding create_bqm_st_def
    by (simp add: and_then_def new_model_def len_df_def first_st second_st return_model_def
        del: One_nat_def)
  ultimately show ?thesis by blast
qed

lemma scan_item_st_tracks:
  "tracks (scan_item (df_obj s) item (prices_obj s)) s (scan_item_st item s)"
proof -
  obtain key v where item: "item = (key, v)" by (cases item)
  show ?thesis
    unfolding item
    by (simp add: tracks_def scan_item_def scan_item_st_def buy_price_def and_then_def
        raise_or_return_def read_Close_def price_list_append_def done_with_def
        split: sum.splits)
qed

lemma loop_tracks:
  assumes step: "\<And>x s. tracks (body (df_obj s) x (prices_obj s)) s (body_st x s)"
  shows "tracks (for_each (body (df_obj s)) xs (prices_obj s)) s (for_each_st body_st xs s)"
proof (induction xs arbitrary: s)
  case Nil
  then show ?case by (simp add: tracks_def done_with_def)
next
  case (Cons x xs)
  obtain r1 s1 where out1: "body_st x s = (r1, s1)" by (cases "body_st x s")
  note first = step [of s x, unfolded out1]
  show ?case
  proof (cases "body (df_obj s) x (prices_obj s)")
    case (Inl e)
    with first have "r1 = Inl e" and "df_obj s1 = df_obj s" and "bqm_obj s1 = bqm_obj s"
      by (simp_all add: tracks_def)
    with Inl out1 show ?thesis by (simp add: tracks_def and_then_def)
  next
    case (Inr ps)
    with first have r1: "r1 = Inr ()" and same: "df_obj s1 = df_obj s" "bqm_obj s1 = bqm_obj s"
      and ps: "prices_obj s1 = ps"
      by (simp_all add: tracks_def)
    from Cons [of s1] have "tracks (for_each (body (df_obj s)) xs ps) s1 (for_each_st body_st xs s1)"
      by (simp add: same ps)
    then have "tracks (for_each (body (df_obj s)) xs ps) s (for_each_st body_st xs s1)"
      by (simp add: tracks_def same)
    with Inr out1 r1 show ?thesis by (simp add: and_then_def)
  qed
qed

lemma scan_sample_st_tracks:
  "tracks (scan_sample (df_obj s) entry (prices_obj s)) s (scan_sample_st entry s)"
proof -
  obtain sample e where entry: "entry = (sample, e)" by (cases entry)
  show ?thesis
    unfolding entry
    using loop_tracks [of scan_item scan_item_st s sample, OF scan_item_st_tracks]
    by (simp add: scan_sample_pair scan_sample_st_def)
qed

lemma get_optimal_buy_prices_st_run:
  "fst (get_optimal_buy_prices_st response s) = get_optimal_buy_prices response (df_obj s) \<and>
   df_obj (snd (get_optimal_buy_prices_st response s)) = df_obj s \<and>
   bqm_obj (snd (get_optimal_buy_prices_st response s)) = bqm_obj s"
proof -
  let ?s0 = "s\<lparr>prices_obj := []\<rparr>"
  obtain r1 s1 where out: "for_each_st scan_sample_st response ?s0 = (r1, s1)"
    by (cases "for_each_st scan_sample_st response ?s0")
  from loop_tracks [of scan_sample scan_sample_st ?s0 response, OF scan_sample_st_tracks]
  have t: "tracks (get_optimal_buy_prices response (df_obj s)) ?s0 (r1, s1)"
    by (simp add: get_optimal_buy_prices_def out)
  show ?thesis
  proof (cases "get_optimal_buy_prices response (df_obj s)")
    case (Inl e)
    with t out show ?thesis
      by (simp add: tracks_def get_optimal_buy_prices_st_def and_then_def new_price_list_def)
  next
    case (Inr ps)
    with t out show ?thesis
      by (simp add: tracks_def get_optimal_buy_prices_st_def and_then_def new_price_list_def
          return_price_list_def)
  qed
qed

section \<open>What \<open>main\<close> returns and what the extractor does with a name\<close>

lemma main_returns:
  assumes "main solve_bqm df = Inr r"
  shows "\<exists>m response prices best.
           create_bqm df = Inr m \<and> solve_bqm m = Inr response \<and>
           get_optimal_buy_prices response df = Inr prices \<and> py_min prices = Inr best \<and>
           r = \<lparr>optimal_buy_prices = prices, best_entry_price = best,
                trading_signals_csv = to_csv df\<rparr>"
proof -
  obtain m where m: "create_bqm df = Inr m" by (simp add: create_bqm_built)
  show ?thesis
  proof (cases "solve_bqm m")
    case (Inl e)
    with assms m show ?thesis by (simp add: main_def)
  next
    case solved: (Inr response)
    show ?thesis
    proof (cases "get_optimal_buy_prices response df")
      case (Inl e)
      with assms m solved show ?thesis by (simp add: main_def)
    next
      case got: (Inr prices)
      show ?thesis
      proof (cases "py_min prices")
        case (Inl e)
        with assms m solved got show ?thesis by (simp add: main_def)
      next
        case (Inr best)
        with assms m solved got show ?thesis by (auto simp add: main_def)
      qed
    qed
  qed
qed

lemma buy_names_of_built_linear:
  "filter (\<lambda>v. contains v ''buy_'') (map fst (built_linear df n)) =
     map buy_name (filter (\<lambda>j. Buy_Signal (df ! j)) [1..<n])"
proof (induction n)
  case 0
  then show ?case by (simp add: built_linear_def)
next
  case (Suc n)
  show ?case
  proof (cases "1 \<le> n")
    case True
    then have "[1..<Suc n] = [1..<n] @ [n]" by simp
    with Suc True show ?thesis
      by (simp add: built_linear_Suc signal_entries_def contains_buy_name not_contains_sell_name)
  next
    case False
    then show ?thesis by (simp add: built_linear_def)
  qed
qed

lemma scan_item_buy_name:
  "i < length df \<Longrightarrow> scan_item df (buy_name i, 1) acc = Inr (acc @ [Close (df ! i)])"
  by (simp add: scan_item_def contains_buy_name buy_price_buy_name iloc_nat)

lemma scan_item_sell_name: "scan_item df (sell_name i, x) acc = Inr acc"
  by (simp add: scan_item_def not_contains_sell_name)

section \<open>Properties of the model builder\<close>

text \<open>
  Claim C2. Under the default signal rule (lines 24 and 25), for every price series
  of length \<open>N\<close> the builder succeeds, and its variables are exactly the names
  \<open>buy_i\<close> of the odd positions \<open>i\<close> with \<open>1 \<le> i < N\<close>, in increasing order:
  \<open>buy_i\<close> is a variable if and only if \<open>i\<close> is odd and \<open>1 \<le> i < N\<close>, and no
  \<open>sell_i\<close> is a variable.
\<close>

theorem default_rule_variables:
  "\<exists>m. create_bqm (default_signals bars) = Inr m \<and>
       variables m = map buy_name (filter odd [1..<length bars]) \<and>
       (\<forall>i. buy_name i \<in> set (variables m) \<longleftrightarrow> odd i \<and> 1 \<le> i \<and> i < length bars) \<and>
       (\<forall>i. sell_name i \<notin> set (variables m))"
proof -
  let ?m = "\<lparr>linear = built_linear (default_signals bars) (length bars),
             quadratic = built_quadratic (default_signals bars) (length bars), offset = 0\<rparr>"
  have run: "create_bqm (default_signals bars) = Inr ?m"
    by (simp add: create_bqm_built length_default_signals)
  have vars: "variables ?m = map buy_name (filter odd [1..<length bars])"
    by (simp add: variables_def built_linear_default comp_def)
  have buy: "buy_name i \<in> set (variables ?m) \<longleftrightarrow> odd i \<and> 1 \<le> i \<and> i < length bars" for i
    unfolding vars by (auto simp add: buy_name_inject)
  have sell: "sell_name i \<notin> set (variables ?m)" for i
  proof
    assume "sell_name i \<in> set (variables ?m)"
    then obtain k where "sell_name i = buy_name k" unfolding vars by auto
    then show False using buy_name_not_sell_name [of k i] by simp
  qed
  from run vars buy sell show ?thesis by blast
qed

text \<open>
  Claim C3. For every frame, whatever its signal columns, the builder succeeds, no
  variable occurs twice, every entry \<open>buy_i\<close> of the linear biases carries exactly
  \<open>- Close[i]\<close> and every entry \<open>sell_i\<close> carries exactly \<open>Close[i]\<close>, with
  \<open>i\<close> a position of the frame.
\<close>

theorem linear_bias_of_created_variables:
  "\<exists>m. create_bqm df = Inr m \<and> distinct (variables m) \<and>
       (\<forall>i b. (buy_name i, b) \<in> set (linear m) \<longrightarrow> i < length df \<and> b = - Close (df ! i)) \<and>
       (\<forall>i b. (sell_name i, b) \<in> set (linear m) \<longrightarrow> i < length df \<and> b = Close (df ! i))"
proof -
  let ?m = "\<lparr>linear = built_linear df (length df),
             quadratic = built_quadratic df (length df), offset = 0\<rparr>"
  have run: "create_bqm df = Inr ?m" by (rule create_bqm_built)
  have dist: "distinct (variables ?m)" by (simp add: variables_def distinct_built_linear)
  have buy: "i < length df \<and> b = - Close (df ! i)" if "(buy_name i, b) \<in> set (linear ?m)" for i b
    using that by (auto simp add: in_built_linear buy_name_inject buy_name_not_sell_name)
  have sell: "i < length df \<and> b = Close (df ! i)" if "(sell_name i, b) \<in> set (linear ?m)" for i b
    using that
    by (auto simp add: in_built_linear sell_name_inject buy_name_not_sell_name [symmetric])
  from run dist buy sell show ?thesis by blast
qed

text \<open>
  The theorem at a frame with buy and sell signals: \<open>buy_1\<close> carries \<open>-5\<close> and
  \<open>sell_2\<close> carries \<open>7\<close>.
\<close>

theorem linear_bias_of_created_variables_witness:
  "\<exists>m. create_bqm two_sided_frame = Inr m \<and>
       (buy_name 1, - 5) \<in> set (linear m) \<and> - 5 = - Close (two_sided_frame ! 1) \<and>
       (sell_name 2, 7) \<in> set (linear m) \<and> 7 = Close (two_sided_frame ! 2)"
proof -
  have run: "create_bqm two_sided_frame =
      Inr \<lparr>linear = [(buy_name 1, - 5), (sell_name 1, 5), (sell_name 2, 7)],
           quadratic = [((buy_name 1, sell_name 1), 1)], offset = 0\<rparr>"
    by (simp add: create_bqm_built two_sided_frame_def built_linear_def signal_entries_def
        built_quadratic_def conflict_entries_def upt_1_3 numeral_2_eq_2)
  have rows: "Close (two_sided_frame ! 1) = 5" "Close (two_sided_frame ! 2) = 7"
    by (simp_all add: two_sided_frame_def)
  from linear_bias_of_created_variables [of two_sided_frame] run rows
  show ?thesis by simp
qed

text \<open>
  Claim C7. Under the default signal rule, for every price series the model that the
  builder returns has no interaction at all: no row is both buy- and sell-eligible,
  so the branch of line 53 is never taken.
\<close>

theorem default_rule_no_interactions:
  "\<exists>m. create_bqm (default_signals bars) = Inr m \<and> quadratic m = [] \<and>
       list_all (\<lambda>r. \<not> (Buy_Signal r \<and> Sell_Signal r)) (default_signals bars)"
proof -
  have "list_all (\<lambda>r. \<not> (Buy_Signal r \<and> Sell_Signal r)) (default_signals bars)"
    by (simp add: default_signals_def list_all_iff)
  then show ?thesis
    by (simp add: create_bqm_built length_default_signals built_quadratic_default)
qed

text \<open>
  Claim C8. For every frame, whatever its length and its signal columns (also those
  of position 0), the builder creates neither \<open>buy_0\<close> nor \<open>sell_0\<close>: every
  variable is \<open>buy_i\<close> or \<open>sell_i\<close> for a position \<open>i\<close> with \<open>1 \<le> i < N\<close>.
\<close>

theorem no_variable_for_index_0:
  "\<exists>m. create_bqm df = Inr m \<and>
       buy_name 0 \<notin> set (variables m) \<and> sell_name 0 \<notin> set (variables m) \<and>
       set (variables m) \<subseteq> buy_name ` {1..<length df} \<union> sell_name ` {1..<length df}"
proof -
  let ?m = "\<lparr>linear = built_linear df (length df),
             quadratic = built_quadratic df (length df), offset = 0\<rparr>"
  have run: "create_bqm df = Inr ?m" by (rule create_bqm_built)
  have buy: "buy_name 0 \<notin> set (variables ?m)"
    by (simp add: variables_def buy_name_in_built_linear)
  have sell: "sell_name 0 \<notin> set (variables ?m)"
    by (simp add: variables_def sell_name_in_built_linear)
  have names: "set (variables ?m) \<subseteq> buy_name ` {1..<length df} \<union> sell_name ` {1..<length df}"
    by (auto simp add: variables_def in_built_linear)
  from run buy sell names show ?thesis by blast
qed

section \<open>Names written by the builder and read by the extractor\<close>

text \<open>
  Claim C10. For every frame and every position \<open>i\<close> with \<open>1 \<le> i < N\<close>: splitting
  \<open>buy_i\<close> at \<open>_\<close> and reading the field of index 1 with \<open>int\<close> gives \<open>i\<close>,
  so the extractor's lookup of lines 96 and 97 returns the close price at position
  \<open>i\<close>, and the extractor's step of lines 94 to 97 appends that price for
  \<open>buy_i\<close> set to 1 and appends nothing for \<open>sell_i\<close>, whatever its value. In
  the model that \<open>create_bqm\<close> returns, \<open>buy_i\<close> and \<open>sell_i\<close> are variables
  exactly when the respective signal is set, every variable is of one of the two
  forms, and the variables that pass the test \<open>'buy_' in key\<close> are exactly the
  names \<open>buy_j\<close> that the builder created.
\<close>

theorem variable_name_round_trip:
  assumes "1 \<le> i" and "i < length df" and "create_bqm df = Inr m"
  shows "bind_result (list_item (split_on CHR ''_'' (buy_name i)) 1) py_int = Inr (int i) \<and>
         buy_price df (buy_name i) = Inr (Close (df ! i)) \<and>
         scan_item df (buy_name i, 1) acc = Inr (acc @ [Close (df ! i)]) \<and>
         scan_item df (sell_name i, x) acc = Inr acc \<and>
         (buy_name i \<in> set (variables m) \<longleftrightarrow> Buy_Signal (df ! i)) \<and>
         (sell_name i \<in> set (variables m) \<longleftrightarrow> Sell_Signal (df ! i)) \<and>
         set (variables m) \<subseteq> buy_name ` {1..<length df} \<union> sell_name ` {1..<length df} \<and>
         filter (\<lambda>v. contains v ''buy_'') (variables m) =
           map buy_name (filter (\<lambda>j. Buy_Signal (df ! j)) [1..<length df])"
proof -
  from assms(3) have m: "m = \<lparr>linear = built_linear df (length df),
             quadratic = built_quadratic df (length df), offset = 0\<rparr>"
    by (simp add: create_bqm_built)
  have parse: "bind_result (list_item (split_on CHR ''_'' (buy_name i)) 1) py_int = Inr (int i)"
    by (simp add: split_buy_name list_item_def py_int_str_nat)
  have price: "buy_price df (buy_name i) = Inr (Close (df ! i))"
    using assms(2) by (simp add: buy_price_buy_name iloc_nat)
  have buy: "buy_name i \<in> set (variables m) \<longleftrightarrow> Buy_Signal (df ! i)"
    using assms(1,2) by (simp add: m variables_def buy_name_in_built_linear)
  have sell: "sell_name i \<in> set (variables m) \<longleftrightarrow> Sell_Signal (df ! i)"
    using assms(1,2) by (simp add: m variables_def sell_name_in_built_linear)
  have names: "set (variables m) \<subseteq> buy_name ` {1..<length df} \<union> sell_name ` {1..<length df}"
    by (auto simp add: m variables_def in_built_linear)
  have test: "filter (\<lambda>v. contains v ''buy_'') (variables m) =
           map buy_name (filter (\<lambda>j. Buy_Signal (df ! j)) [1..<length df])"
    by (simp add: m variables_def buy_names_of_built_linear)
  from parse price scan_item_buy_name [OF assms(2)] scan_item_sell_name buy sell names test
  show ?thesis by blast
qed

text \<open>
  The theorem at position 1 of the frame with three rows, whose model has the
  variables \<open>buy_1\<close>, \<open>sell_1\<close> and \<open>sell_2\<close>.
\<close>

theorem variable_name_round_trip_witness:
  "1 \<le> (1::nat) \<and> 1 < length two_sided_frame \<and>
   create_bqm two_sided_frame =
      Inr \<lparr>linear = [(buy_name 1, - 5), (sell_name 1, 5), (sell_name 2, 7)],
           quadratic = [((buy_name 1, sell_name 1), 1)], offset = 0\<rparr> \<and>
   buy_price two_sided_frame (buy_name 1) = Inr 5 \<and>
   scan_item two_sided_frame (buy_name 1, 1) [3] = Inr [3, 5] \<and>
   scan_item two_sided_frame (sell_name 1, 1) [3] = Inr [3] \<and>
   filter (\<lambda>v. contains v ''buy_'') [buy_name 1, sell_name 1, sell_name 2] = [buy_name 1]"
proof -
  have run: "create_bqm two_sided_frame =
      Inr \<lparr>linear = [(buy_name 1, - 5), (sell_name 1, 5), (sell_name 2, 7)],
           quadratic = [((buy_name 1, sell_name 1), 1)], offset = 0\<rparr>"
    by (simp add: create_bqm_built two_sided_frame_def built_linear_def signal_entries_def
        built_quadratic_def conflict_entries_def upt_1_3 numeral_2_eq_2)
  have len: "1 < length two_sided_frame" by (simp add: two_sided_frame_def)
  have row: "Close (two_sided_frame ! 1) = 5" by (simp add: two_sided_frame_def)
  note t = variable_name_round_trip [OF order_refl len run, of "[3]" 1]
  from t have "buy_price two_sided_frame (buy_name 1) = Inr (Close (two_sided_frame ! 1))"
    by blast
  then have price: "buy_price two_sided_frame (buy_name 1) = Inr 5" unfolding row .
  from t have "scan_item two_sided_frame (buy_name 1, 1) [3] =
      Inr ([3] @ [Close (two_sided_frame ! 1)])" by blast
  then have taken: "scan_item two_sided_frame (buy_name 1, 1) [3] = Inr [3, 5]"
    unfolding row by simp
  from t have skipped: "scan_item two_sided_frame (sell_name 1, 1) [3] = Inr [3]" by blast
  from t have "filter (\<lambda>v. contains v ''buy_'')
        (variables \<lparr>linear = [(buy_name 1, - 5), (sell_name 1, 5), (sell_name 2, 7)],
           quadratic = [((buy_name 1, sell_name 1), 1)], offset = 0\<rparr>) =
      map buy_name (filter (\<lambda>j. Buy_Signal (two_sided_frame ! j)) [1..<length two_sided_frame])"
    by blast
  moreover have "map buy_name (filter (\<lambda>j. Buy_Signal (two_sided_frame ! j))
      [1..<length two_sided_frame]) = [buy_name 1]"
    by (simp add: two_sided_frame_def upt_rec)
  ultimately have test: "filter (\<lambda>v. contains v ''buy_'')
      [buy_name 1, sell_name 1, sell_name 2] = [buy_name 1]"
    by (simp add: variables_def del: One_nat_def)
  from len run price taken skipped test show ?thesis by simp
qed

section \<open>Properties of the result extractor\<close>

text \<open>
  Claim C4. For every frame and every solution set over variables the builder can
  name, with positions inside the frame, the extractor returns exactly the prices
  that the specification describes: the close price at the position of every buy
  variable set to 1, once per occurrence, solution after solution. When the solver
  answers with that solution set, \<open>main\<close> reports this list and, as the best entry
  price, its least element; when the list is empty \<open>main\<close> raises the
  \<open>ValueError\<close> of \<open>min\<close> instead.
\<close>

theorem extractor_and_main_report:
  assumes "positions_below (length df) solutions"
    and "create_bqm df = Inr m"
    and "solve_bqm m = Inr (encode_response solutions)"
  shows "get_optimal_buy_prices (encode_response solutions) df =
           Inr (selected_buy_prices solutions (map Close df)) \<and>
         main solve_bqm df =
           (if selected_buy_prices solutions (map Close df) = [] then Inl ValueError_min_empty
            else Inr \<lparr>optimal_buy_prices = selected_buy_prices solutions (map Close df),
                      best_entry_price = Min (set (selected_buy_prices solutions (map Close df))),
                      trading_signals_csv = to_csv df\<rparr>)"
proof -
  have got: "get_optimal_buy_prices (encode_response solutions) df =
           Inr (selected_buy_prices solutions (map Close df))"
    using assms(1) by (simp add: get_optimal_buy_prices_def scan_encoded_response)
  then show ?thesis
    using assms(2,3) by (simp add: main_def py_min_eq)
qed

text \<open>
  The theorem at the frame with three rows: of the two solutions only the first
  selects a buy variable, \<open>buy_1\<close>, whose price is 5, and \<open>main\<close> reports the
  list \<open>[5]\<close> and the best entry price 5.
\<close>

theorem extractor_and_main_report_witness:
  "positions_below (length two_sided_frame) example_solutions \<and>
   get_optimal_buy_prices (encode_response example_solutions) two_sided_frame = Inr [5] \<and>
   main (\<lambda>bqm. Inr (encode_response example_solutions)) two_sided_frame =
     Inr \<lparr>optimal_buy_prices = [5], best_entry_price = 5,
          trading_signals_csv = to_csv two_sided_frame\<rparr>"
proof -
  have inside: "positions_below (length two_sided_frame) example_solutions"
    by (simp add: positions_below_def position_def example_solutions_def two_sided_frame_def)
  have built: "create_bqm two_sided_frame =
      Inr \<lparr>linear = built_linear two_sided_frame (length two_sided_frame),
           quadratic = built_quadratic two_sided_frame (length two_sided_frame), offset = 0\<rparr>"
    by (rule create_bqm_built)
  have prices: "selected_buy_prices example_solutions (map Close two_sided_frame) = [5]"
    by (simp add: selected_buy_prices_def example_solutions_def is_selected_buy_def
        position_def two_sided_frame_def)
  from extractor_and_main_report [where solve_bqm = "\<lambda>bqm. Inr (encode_response example_solutions)",
      OF inside built refl] inside
  show ?thesis by (simp add: prices)
qed

text \<open>
  Claim C5, as the script has it. When no buy variable is set to 1 in any returned
  solution, the extractor returns the empty list and \<open>min\<close> raises its own
  \<open>ValueError\<close> for an empty sequence, which ends \<open>main\<close>; nothing is returned
  in its place. The script has no check of its own for this case.
\<close>

theorem no_buy_selected_raises_min_error:
  assumes "no_buy_selected solutions"
  shows "get_optimal_buy_prices (encode_response solutions) df = Inr [] \<and>
         main (\<lambda>bqm. Inr (encode_response solutions)) df = Inl ValueError_min_empty"
  using assms
  by (simp add: get_optimal_buy_prices_def scan_idle_response main_def create_bqm_built
      py_min_def)

text \<open>
  The theorem at a solution set that selects a sell variable only.
\<close>

theorem no_buy_selected_raises_min_error_witness:
  "no_buy_selected idle_solutions \<and>
   get_optimal_buy_prices (encode_response idle_solutions) two_sided_frame = Inr [] \<and>
   main (\<lambda>bqm. Inr (encode_response idle_solutions)) two_sided_frame = Inl ValueError_min_empty"
  using no_buy_selected_raises_min_error [of idle_solutions two_sided_frame]
  by (simp add: no_buy_selected_def idle_solutions_def is_selected_buy_def)

text \<open>
  Claim C5 as stated fails: on the script's own table, with a response in which all
  seven variables are 0, \<open>main\<close> ends with the \<open>ValueError\<close> of \<open>min\<close>, not with
  a condition "no optimal buy price found".
\<close>

theorem empty_result_counterexample:
  "bind_result global_df (main (\<lambda>bqm. Inr all_zero_response)) = Inl ValueError_min_empty \<and>
   bind_result global_df (main (\<lambda>bqm. Inr all_zero_response)) \<noteq> Inl NoOptimalBuyPriceFound"
  by (simp add: global_df_script main_def create_bqm_built all_zero_response_def
      get_optimal_buy_prices_def scan_sample_pair scan_item_def py_min_def)

section \<open>The exported table\<close>

text \<open>
  Claim C6, as the script has it. Whenever \<open>main\<close> completes, the table it
  exports (line 124) has one header row with exactly four columns, \<open>Date\<close>,
  \<open>Close\<close>, \<open>Buy_Signal\<close> and \<open>Sell_Signal\<close>, followed by exactly one row of
  four cells per row of the frame; the two signal cells of every row are the frame's
  signals, which under the default rule are "odd position" and \<open>False\<close>.
\<close>

theorem exported_table_shape:
  assumes "main solve_bqm df = Inr r"
  shows "hd (trading_signals_csv r) =
           [Text ''Date'', Text ''Close'', Text ''Buy_Signal'', Text ''Sell_Signal''] \<and>
         length (hd (trading_signals_csv r)) = 4 \<and>
         length (tl (trading_signals_csv r)) = length df \<and>
         list_all (\<lambda>cells. length cells = 4) (tl (trading_signals_csv r)) \<and>
         map (\<lambda>cells. (cells ! 2, cells ! 3)) (tl (trading_signals_csv r)) =
           map (\<lambda>row. (Flag (Buy_Signal row), Flag (Sell_Signal row))) df \<and>
         (\<forall>bars. df = default_signals bars \<longrightarrow>
            map (\<lambda>cells. (cells ! 2, cells ! 3)) (tl (trading_signals_csv r)) =
              map (\<lambda>i. (Flag (i mod 2 \<noteq> 0), Flag False)) [0..<length bars])"
proof -
  from main_returns [OF assms] have csv: "trading_signals_csv r = to_csv df" by auto
  show ?thesis
    unfolding csv
    by (simp add: to_csv_def columns_def list_all_iff default_signals_def comp_def)
qed

text \<open>
  The theorem at the run of \<open>main\<close> on the script's own table with the
  exhaustive-search solver: four header cells, 14 rows, and the signal cells of the
  default rule.
\<close>

theorem exported_table_shape_witness:
  "bind_result (main exact_solver (default_signals script_bars))
     (\<lambda>r. Inr (hd (trading_signals_csv r), length (tl (trading_signals_csv r)),
               map (\<lambda>cells. (cells ! 2, cells ! 3)) (tl (trading_signals_csv r)))) =
   Inr ([Text ''Date'', Text ''Close'', Text ''Buy_Signal'', Text ''Sell_Signal''], 14,
        map (\<lambda>i. (Flag (i mod 2 \<noteq> 0), Flag False)) [0..<14])"
proof -
  from script_run obtain r where run: "main exact_solver (default_signals script_bars) = Inr r"
    by blast
  from exported_table_shape [OF run]
  have "hd (trading_signals_csv r) =
           [Text ''Date'', Text ''Close'', Text ''Buy_Signal'', Text ''Sell_Signal'']"
    and "length (tl (trading_signals_csv r)) = length (default_signals script_bars)"
    and "map (\<lambda>cells. (cells ! 2, cells ! 3)) (tl (trading_signals_csv r)) =
              map (\<lambda>i. (Flag (i mod 2 \<noteq> 0), Flag False)) [0..<length script_bars]"
    by blast+
  then show ?thesis
    by (simp add: run length_default_signals length_script_bars)
qed

text \<open>
  Claim C6 as stated fails: the header of the table that \<open>main\<close> exports for the
  script's own table has the four columns listed, not three.
\<close>

theorem csv_header_counterexample:
  "bind_result global_df (\<lambda>frame. bind_result (main exact_solver frame)
     (\<lambda>r. Inr (hd (trading_signals_csv r)))) =
     Inr [Text ''Date'', Text ''Close'', Text ''Buy_Signal'', Text ''Sell_Signal''] \<and>
   bind_result global_df (\<lambda>frame. bind_result (main exact_solver frame)
     (\<lambda>r. Inr (length (hd (trading_signals_csv r)) = 3))) = Inr False"
proof -
  from script_run obtain r where run: "main exact_solver (default_signals script_bars) = Inr r"
    by blast
  from main_returns [OF run] have "trading_signals_csv r = to_csv (default_signals script_bars)"
    by auto
  then show ?thesis
    by (simp add: global_df_script run to_csv_def columns_def)
qed

section \<open>The run of \<open>main\<close> with an exact solver\<close>

text \<open>
  Claim C1, as the script has it. Take a price series of at least two rows whose
  odd-indexed close prices are all positive, and let the solver answer the model
  built from it under the default rule with one sample that is a minimum-energy
  assignment. Then that sample is, as a mapping, the assignment that sets every
  variable to 1: the best assignment is unique, so every exact solve returns the
  same one. \<open>main\<close> succeeds, the prices it lists are the odd-indexed close
  prices, and the best entry price it reports is the least of them. For the script's
  own table that is 8.46, the price at index 3.
\<close>

theorem minimum_energy_best_entry_price:
  assumes "2 \<le> length bars"
    and "positive_odd_closes bars"
    and "create_bqm (default_signals bars) = Inr m"
    and "solve_bqm m = Inr [(a, e)]"
    and "minimum_energy m a"
  shows "map_of a = map_of (all_ones (variables m)) \<and>
         (\<exists>r. main solve_bqm (default_signals bars) = Inr r \<and>
              set (optimal_buy_prices r) = {Close (bars ! i) | i. i < length bars \<and> odd i} \<and>
              best_entry_price r = Min {Close (bars ! i) | i. i < length bars \<and> odd i}) \<and>
         (global_df = Inr (default_signals bars) \<longrightarrow>
            Min {Close (bars ! i) | i. i < length bars \<and> odd i} = 846 / 100 \<and>
            Close (bars ! 3) = 846 / 100)"
proof -
  from assms(3) have m: "m = default_model bars" by (simp add: create_bqm_default)
  note general = default_rule_best_entry [where solve_bqm = solve_bqm and a = a and e = e,
      OF assms(1,2) assms(4) [unfolded m] assms(5) [unfolded m]]
  from general(1) have same: "map_of a = map_of (all_ones (variables m))" by (simp only: m)
  from general(2) have run: "\<exists>r. main solve_bqm (default_signals bars) = Inr r \<and>
              set (optimal_buy_prices r) = {Close (bars ! i) | i. i < length bars \<and> odd i} \<and>
              best_entry_price r = Min {Close (bars ! i) | i. i < length bars \<and> odd i}"
    by (simp only: odd_closes_set)
  have table: "Min {Close (bars ! i) | i. i < length bars \<and> odd i} = 846 / 100 \<and>
            Close (bars ! 3) = 846 / 100" if "global_df = Inr (default_signals bars)"
  proof -
    from that have "default_signals bars = default_signals script_bars"
      by (simp add: global_df_script)
    then have bars: "bars = script_bars" by (rule default_signals_inject)
    have "Close (script_bars ! 3) = 846 / 100"
      by (simp add: script_bars_def data_Date_def data_Close_def)
    moreover have "Min {Close (script_bars ! i) | i. i < length script_bars \<and> odd i} = 846 / 100"
      by (simp only: odd_closes_set [symmetric] min_odd_closes_script)
    ultimately show ?thesis by (simp only: bars)
  qed
  from same run table show ?thesis by blast
qed

text \<open>
  The theorem at the script's own table with the exhaustive-search solver: its
  answer is the all-ones sample, which is a minimum-energy assignment, and \<open>main\<close>
  reports 8.46.
\<close>

theorem minimum_energy_best_entry_price_witness:
  "2 \<le> length script_bars \<and>
   positive_odd_closes script_bars \<and>
   global_df = Inr (default_signals script_bars) \<and>
   create_bqm (default_signals script_bars) = Inr (default_model script_bars) \<and>
   exact_solver (default_model script_bars) =
     Inr [(all_ones (variables (default_model script_bars)),
           energy (default_model script_bars) (all_ones (variables (default_model script_bars))))] \<and>
   minimum_energy (default_model script_bars) (all_ones (variables (default_model script_bars))) \<and>
   bind_result (main exact_solver (default_signals script_bars))
     (\<lambda>r. Inr (best_entry_price r)) = Inr (846 / 100) \<and>
   Close (script_bars ! 3) = 846 / 100"
proof -
  have len: "2 \<le> length script_bars" by (simp add: length_script_bars)
  note solved = exact_solver_default [OF positive_script]
  note least = all_ones_minimum_energy [OF positive_script]
  from minimum_energy_best_entry_price [where solve_bqm = exact_solver,
      OF len positive_script create_bqm_default solved least] global_df_script
  obtain r where "main exact_solver (default_signals script_bars) = Inr r"
    and "best_entry_price r = 846 / 100" and third: "Close (script_bars ! 3) = 846 / 100"
    by auto
  then have "bind_result (main exact_solver (default_signals script_bars))
     (\<lambda>r. Inr (best_entry_price r)) = Inr (846 / 100)" by simp
  with len positive_script global_df_script create_bqm_default solved least third
  show ?thesis by simp
qed

text \<open>
  Claim C1 as stated fails without positive prices. For the closes \<open>[1, -2]\<close> the
  model has the bias \<open>+2\<close> for \<open>buy_1\<close>, the exhaustive-search solver returns the
  minimum-energy assignment that leaves \<open>buy_1\<close> at 0, and \<open>main\<close> raises the
  \<open>ValueError\<close> of \<open>min\<close>, while the least odd-indexed close is \<open>-2\<close>. For
  the closes \<open>[1, 0]\<close> both assignments of \<open>buy_1\<close> have minimum energy, so the
  best assignment is not unique.
\<close>

theorem exact_solver_counterexample:
  "odd_closes negative_close_bars = [- 2] \<and>
   create_bqm (default_signals negative_close_bars) =
     Inr \<lparr>linear = [(buy_name 1, 2)], quadratic = [], offset = 0\<rparr> \<and>
   exact_solver \<lparr>linear = [(buy_name 1, 2)], quadratic = [], offset = 0\<rparr> =
     Inr [([(buy_name 1, 0)], 0)] \<and>
   minimum_energy \<lparr>linear = [(buy_name 1, 2)], quadratic = [], offset = 0\<rparr> [(buy_name 1, 0)] \<and>
   main exact_solver (default_signals negative_close_bars) = Inl ValueError_min_empty \<and>
   create_bqm (default_signals zero_close_bars) =
     Inr \<lparr>linear = [(buy_name 1, 0)], quadratic = [], offset = 0\<rparr> \<and>
   minimum_energy \<lparr>linear = [(buy_name 1, 0)], quadratic = [], offset = 0\<rparr> [(buy_name 1, 0)] \<and>
   minimum_energy \<lparr>linear = [(buy_name 1, 0)], quadratic = [], offset = 0\<rparr> [(buy_name 1, 1)] \<and>
   map_of [(buy_name 1, 0 :: int)] \<noteq> map_of [(buy_name 1, 1)]"
proof -
  let ?m = "\<lparr>linear = [(buy_name 1, 2)], quadratic = [], offset = 0\<rparr>"
  have closes: "odd_closes negative_close_bars = [- 2]"
  proof -
    have "odd_positions (length negative_close_bars) = [1]"
      by (rule odd_positions_two_rows) (simp add: negative_close_bars_def)
    then have "odd_closes negative_close_bars = [Close (negative_close_bars ! 1)]"
      by (simp only: odd_closes_def list.map)
    then show ?thesis by (simp add: negative_close_bars_def)
  qed
  have built: "create_bqm (default_signals negative_close_bars) = Inr ?m"
    by (simp only: create_bqm_default default_model_negative)
  have solved: "exact_solver ?m = Inr [([(buy_name 1, 0)], 0)]"
    by (simp add: exact_solver_def variables_def one_variable_energy sample_value_def)
  have least: "minimum_energy ?m [(buy_name 1, 0)]"
    by (rule one_variable_minimum) simp_all
  have run: "main exact_solver (default_signals negative_close_bars) = Inl ValueError_min_empty"
    by (simp add: main_def built solved get_optimal_buy_prices_def scan_sample_pair
        scan_item_def py_min_def del: One_nat_def)
  have built0: "create_bqm (default_signals zero_close_bars) =
     Inr \<lparr>linear = [(buy_name 1, 0)], quadratic = [], offset = 0\<rparr>"
    by (simp only: create_bqm_default default_model_zero)
  have tie0: "minimum_energy \<lparr>linear = [(buy_name 1, 0)], quadratic = [], offset = 0\<rparr> [(buy_name 1, 0)]"
    by (rule one_variable_minimum) simp_all
  have tie1: "minimum_energy \<lparr>linear = [(buy_name 1, 0)], quadratic = [], offset = 0\<rparr> [(buy_name 1, 1)]"
    by (rule one_variable_minimum) simp_all
  have differ: "map_of [(buy_name 1, 0 :: int)] \<noteq> map_of [(buy_name 1, 1)]"
  proof
    assume "map_of [(buy_name 1, 0 :: int)] = map_of [(buy_name 1, 1)]"
    then have "map_of [(buy_name 1, 0 :: int)] (buy_name 1) = map_of [(buy_name 1, 1)] (buy_name 1)"
      by simp
    then show False by simp
  qed
  from closes built solved least run built0 tie0 tie1 differ show ?thesis by blast
qed

section \<open>What the two functions leave unchanged\<close>

text \<open>
  Claim C9. Run on any store, \<open>create_bqm\<close> and \<open>get_optimal_buy_prices\<close> leave
  the DataFrame as it was, every date, close price and signal flag of every row,
  whether they return or raise; and what they return or raise is what the functions
  \<open>create_bqm\<close> and \<open>get_optimal_buy_prices\<close> of the sections above compute from
  that DataFrame.
\<close>

theorem functions_leave_frame_unchanged:
  "df_obj (snd (create_bqm_st s)) = df_obj s \<and>
   fst (create_bqm_st s) = create_bqm (df_obj s) \<and>
   df_obj (snd (get_optimal_buy_prices_st response s)) = df_obj s \<and>
   fst (get_optimal_buy_prices_st response s) = get_optimal_buy_prices response (df_obj s)"
proof -
  from create_bqm_st_run [of s] obtain m where "create_bqm (df_obj s) = Inr m"
    and "create_bqm_st s = (Inr m, s\<lparr>bqm_obj := m\<rparr>)" by blast
  then have "df_obj (snd (create_bqm_st s)) = df_obj s"
    and "fst (create_bqm_st s) = create_bqm (df_obj s)" by simp_all
  with get_optimal_buy_prices_st_run [of response s] show ?thesis by simp
qed

end
